theory Spec2Isabelle
  imports Main
begin

section \<open>JavaScript strings\<close>

text \<open>
  A JavaScript string is a sequence of UTF-16 code units; \<open>length\<close>, \<open>substring\<close>,
  \<open>indexOf\<close> and the regular expressions of the pollers all count and compare code
  units. A code unit is modelled as a natural number, a string as a list of them, and
  the ASCII literals of the source are written \<open>lit ''...''\<close>.
\<close>

type_synonym codeunit = nat
type_synonym jstring = "codeunit list"

definition cu :: "char \<Rightarrow> codeunit" where
  "cu c = of_char c"

definition lit :: "string \<Rightarrow> jstring" where
  "lit s = map cu s"

text \<open>The em dash and the en dash, the two non-ASCII characters of the source.\<close>

definition mdash :: codeunit where
  "mdash = 8212"

definition ndash :: codeunit where
  "ndash = 8211"

text \<open>The character classes \<open>\s\<close> (also what \<open>trim\<close> strips), \<open>\d\<close> and \<open>\w\<close>.\<close>

definition isSpaceCU :: "codeunit \<Rightarrow> bool" where
  "isSpaceCU c \<longleftrightarrow>
     (9 \<le> c \<and> c \<le> 13) \<or> c = 32 \<or> c = 160 \<or> c = 5760 \<or> (8192 \<le> c \<and> c \<le> 8202) \<or>
     c = 8232 \<or> c = 8233 \<or> c = 8239 \<or> c = 8287 \<or> c = 12288 \<or> c = 65279"

definition isDigitCU :: "codeunit \<Rightarrow> bool" where
  "isDigitCU c \<longleftrightarrow> 48 \<le> c \<and> c \<le> 57"

definition isWordCU :: "codeunit \<Rightarrow> bool" where
  "isWordCU c \<longleftrightarrow>
     (48 \<le> c \<and> c \<le> 57) \<or> (65 \<le> c \<and> c \<le> 90) \<or> c = 95 \<or> (97 \<le> c \<and> c \<le> 122)"

text \<open>
  Canonicalisation of a code unit under the \<open>i\<close> flag. Every cased character that
  occurs in a pattern of the source is an ASCII letter, which only its own two cases
  match; \<open>upperASCII\<close> is also \<open>toUpperCase\<close> on the word characters the source
  applies it to.
\<close>

definition upperASCII :: "codeunit \<Rightarrow> codeunit" where
  "upperASCII c = (if 97 \<le> c \<and> c \<le> 122 then c - 32 else c)"

definition lowerASCII :: "codeunit \<Rightarrow> codeunit" where
  "lowerASCII c = (if 65 \<le> c \<and> c \<le> 90 then c + 32 else c)"

definition trimStart :: "jstring \<Rightarrow> jstring" where
  "trimStart s = dropWhile isSpaceCU s"

definition trim :: "jstring \<Rightarrow> jstring" where
  "trim s = rev (dropWhile isSpaceCU (rev (dropWhile isSpaceCU s)))"

fun startsWith :: "jstring \<Rightarrow> jstring \<Rightarrow> bool" where
  "startsWith s [] = True"
| "startsWith [] (p # ps) = False"
| "startsWith (c # cs) (p # ps) = (c = p \<and> startsWith cs ps)"

text \<open>\<open>indexOfFrom s p i\<close>: the first index of \<open>p\<close> in \<open>s\<close>, counted from \<open>i\<close>.\<close>

fun indexOfFrom :: "jstring \<Rightarrow> jstring \<Rightarrow> nat \<Rightarrow> nat option" where
  "indexOfFrom [] p i = (if p = [] then Some i else None)"
| "indexOfFrom (c # cs) p i =
     (if startsWith (c # cs) p then Some i else indexOfFrom cs p (Suc i))"

definition indexOf :: "jstring \<Rightarrow> jstring \<Rightarrow> int" where
  "indexOf s p = (case indexOfFrom s p 0 of None \<Rightarrow> - 1 | Some i \<Rightarrow> int i)"

definition includesStr :: "jstring \<Rightarrow> jstring \<Rightarrow> bool" where
  "includesStr s p \<longleftrightarrow> indexOfFrom s p 0 \<noteq> None"

text \<open>\<open>substring\<close> clamps both indices to the string and swaps them when reversed.\<close>

definition substring :: "jstring \<Rightarrow> int \<Rightarrow> int \<Rightarrow> jstring" where
  "substring s a b =
     (let n = int (length s);
          a' = max 0 (min a n);
          b' = max 0 (min b n);
          lo = min a' b';
          hi = max a' b'
      in take (nat (hi - lo)) (drop (nat lo) s))"

definition splitFirst :: "codeunit \<Rightarrow> jstring \<Rightarrow> jstring" where
  "splitFirst sep s = takeWhile (\<lambda>c. c \<noteq> sep) s"

fun joinWith :: "jstring \<Rightarrow> jstring list \<Rightarrow> jstring" where
  "joinWith sep [] = []"
| "joinWith sep [x] = x"
| "joinWith sep (x # y # ys) = x @ sep @ joinWith sep (y # ys)"

text \<open>The default \<open>Array.prototype.sort\<close>: stable, by code units.\<close>

fun strLess :: "jstring \<Rightarrow> jstring \<Rightarrow> bool" where
  "strLess [] [] = False"
| "strLess [] (y # ys) = True"
| "strLess (x # xs) [] = False"
| "strLess (x # xs) (y # ys) = (x < y \<or> (x = y \<and> strLess xs ys))"

fun insertSorted :: "jstring \<Rightarrow> jstring list \<Rightarrow> jstring list" where
  "insertSorted x [] = [x]"
| "insertSorted x (y # ys) = (if strLess x y then x # y # ys else y # insertSorted x ys)"

definition sortStrings :: "jstring list \<Rightarrow> jstring list" where
  "sortStrings xs = foldl (\<lambda>acc x. insertSorted x acc) [] xs"

section \<open>Regular expressions\<close>

text \<open>
  The patterns of the source are kept as syntax trees and run by a backtracking matcher
  in the style of the language specification: \<open>runRx ic r st k\<close> matches \<open>r\<close> at the
  state \<open>st\<close> and hands every way of doing so, in the order of the priorities of the
  pattern, to the continuation \<open>k\<close> until one succeeds. A repetition does not repeat
  an iteration that consumed nothing.
\<close>

datatype citem =
    Ch char
  | Cu codeunit
  | Rg char char
  | SpaceC
  | NotSpaceC
  | DigitC
  | WordC

datatype rx =
    Eps
  | Lit string
  | Cls bool "citem list"
  | Cat rx rx
  | Alt rx rx
  | Star rx
  | LazyStar rx
  | Grp nat rx
  | WordB
  | EndS

record mstate =
  prev :: "codeunit option"
  rest :: jstring
  caps :: "(nat \<times> jstring) list"

definition eqCU :: "bool \<Rightarrow> codeunit \<Rightarrow> codeunit \<Rightarrow> bool" where
  "eqCU ic a c \<longleftrightarrow> (if ic then upperASCII a = upperASCII c else a = c)"

fun inItem :: "bool \<Rightarrow> citem \<Rightarrow> codeunit \<Rightarrow> bool" where
  "inItem ic (Ch a) c = eqCU ic (cu a) c"
| "inItem ic (Cu a) c = eqCU ic a c"
| "inItem ic (Rg lo hi) c =
     ((cu lo \<le> c \<and> c \<le> cu hi) \<or>
      (ic \<and> ((cu lo \<le> upperASCII c \<and> upperASCII c \<le> cu hi) \<or>
             (cu lo \<le> lowerASCII c \<and> lowerASCII c \<le> cu hi))))"
| "inItem ic SpaceC c = isSpaceCU c"
| "inItem ic NotSpaceC c = (\<not> isSpaceCU c)"
| "inItem ic DigitC c = isDigitCU c"
| "inItem ic WordC c = isWordCU c"

definition inClass :: "bool \<Rightarrow> bool \<Rightarrow> citem list \<Rightarrow> codeunit \<Rightarrow> bool" where
  "inClass ic neg items c \<longleftrightarrow> ((\<exists>i \<in> set items. inItem ic i c) \<noteq> neg)"

fun litMatch :: "bool \<Rightarrow> string \<Rightarrow> jstring \<Rightarrow> bool" where
  "litMatch ic [] s = True"
| "litMatch ic (p # ps) [] = False"
| "litMatch ic (p # ps) (c # cs) = (if eqCU ic (cu p) c then litMatch ic ps cs else False)"

definition advance :: "nat \<Rightarrow> mstate \<Rightarrow> mstate" where
  "advance n st =
     (if n = 0 then st
      else st\<lparr>prev := Some (rest st ! (n - 1)), rest := drop n (rest st)\<rparr>)"

definition wordAt :: "codeunit option \<Rightarrow> bool" where
  "wordAt c = (case c of None \<Rightarrow> False | Some x \<Rightarrow> isWordCU x)"

definition nextCU :: "jstring \<Rightarrow> codeunit option" where
  "nextCU s = (case s of [] \<Rightarrow> None | c # _ \<Rightarrow> Some c)"

function runRx :: "bool \<Rightarrow> rx \<Rightarrow> mstate \<Rightarrow> (mstate \<Rightarrow> mstate option) \<Rightarrow> mstate option" where
  "runRx ic Eps st k = k st"
| "runRx ic (Lit p) st k =
     (if litMatch ic p (rest st) then k (advance (length p) st) else None)"
| "runRx ic (Cls neg items) st k =
     (case rest st of
        [] \<Rightarrow> None
      | c # cs \<Rightarrow> if inClass ic neg items c then k (advance 1 st) else None)"
| "runRx ic (Cat a b) st k = runRx ic a st (\<lambda>st'. runRx ic b st' k)"
| "runRx ic (Alt a b) st k =
     (case runRx ic a st k of Some m \<Rightarrow> Some m | None \<Rightarrow> runRx ic b st k)"
| "runRx ic (Star r) st k =
     (case runRx ic r st
             (\<lambda>st'. if length (rest st') < length (rest st) then runRx ic (Star r) st' k else None) of
        Some m \<Rightarrow> Some m
      | None \<Rightarrow> k st)"
| "runRx ic (LazyStar r) st k =
     (case k st of
        Some m \<Rightarrow> Some m
      | None \<Rightarrow>
          runRx ic r st
            (\<lambda>st'. if length (rest st') < length (rest st) then runRx ic (LazyStar r) st' k else None))"
| "runRx ic (Grp n r) st k =
     runRx ic r st
       (\<lambda>st'. k (st'\<lparr>caps := (n, take (length (rest st) - length (rest st')) (rest st)) # caps st'\<rparr>))"
| "runRx ic WordB st k = (if wordAt (prev st) \<noteq> wordAt (nextCU (rest st)) then k st else None)"
| "runRx ic EndS st k = (if rest st = [] then k st else None)"
  by pat_completeness auto
termination
  by (relation "measures [\<lambda>(ic, r, st, k). size r, \<lambda>(ic, r, st, k). length (rest st)]") auto


text \<open>Derived pattern forms: sequences, alternatives, \<open>+\<close>, \<open>?\<close>, \<open>[\s\S]\<close>, \<open>.\<close>.\<close>

definition seq :: "rx list \<Rightarrow> rx" where
  "seq rs = foldr Cat rs Eps"

fun alts :: "rx list \<Rightarrow> rx" where
  "alts [] = Cls False []"
| "alts [r] = r"
| "alts (r # q # qs) = Alt r (alts (q # qs))"

definition plus :: "rx \<Rightarrow> rx" where
  "plus r = Cat r (Star r)"

definition opt :: "rx \<Rightarrow> rx" where
  "opt r = Alt r Eps"

definition anyCU :: rx where
  "anyCU = Cls False [SpaceC, NotSpaceC]"

definition dot :: rx where
  "dot = Cls True [Cu 10, Cu 13, Cu 8232, Cu 8233]"

definition notCh :: "char \<Rightarrow> rx" where
  "notCh c = Cls True [Ch c]"

definition dq :: rx where
  "dq = Lit [CHR 0x22]"

definition notDq :: rx where
  "notDq = Cls True [Cu 34]"

definition spaceRx :: rx where
  "spaceRx = Cls False [SpaceC]"

definition digitRx :: rx where
  "digitRx = Cls False [DigitC]"

definition nl :: rx where
  "nl = Cls False [Cu 10]"

text \<open>
  \<open>execAt\<close> is one attempt of the matcher at a position (\<open>p\<close> is the code unit
  before it), \<open>rxFind\<close> the search for the leftmost match (\<open>String.prototype.match\<close>
  and \<open>replace\<close> with a pattern without the \<open>g\<close> flag), \<open>rxMatchAll\<close> and
  \<open>rxReplaceAll\<close> the loops of \<open>matchAll\<close> and of \<open>replace\<close> with the \<open>g\<close>
  flag; after an empty match they step over one code unit.
\<close>

definition execAt :: "bool \<Rightarrow> rx \<Rightarrow> codeunit option \<Rightarrow> jstring \<Rightarrow> mstate option" where
  "execAt ic r p s = runRx ic r \<lparr>prev = p, rest = s, caps = []\<rparr> Some"

record rmatch =
  m_index :: nat
  m_text :: jstring
  m_groups :: "(nat \<times> jstring) list"
  m_after :: jstring

definition mkMatch :: "nat \<Rightarrow> jstring \<Rightarrow> mstate \<Rightarrow> rmatch" where
  "mkMatch i s st =
     \<lparr>m_index = i, m_text = take (length s - length (rest st)) s,
      m_groups = caps st, m_after = rest st\<rparr>"

definition group :: "nat \<Rightarrow> rmatch \<Rightarrow> jstring" where
  "group n m = (case map_of (m_groups m) n of None \<Rightarrow> [] | Some g \<Rightarrow> g)"

fun rxFindFrom :: "bool \<Rightarrow> rx \<Rightarrow> codeunit option \<Rightarrow> jstring \<Rightarrow> nat \<Rightarrow> rmatch option" where
  "rxFindFrom ic r p [] i =
     (case execAt ic r p [] of None \<Rightarrow> None | Some st \<Rightarrow> Some (mkMatch i [] st))"
| "rxFindFrom ic r p (c # cs) i =
     (case execAt ic r p (c # cs) of
        Some st \<Rightarrow> Some (mkMatch i (c # cs) st)
      | None \<Rightarrow> rxFindFrom ic r (Some c) cs (Suc i))"

definition rxFind :: "bool \<Rightarrow> rx \<Rightarrow> jstring \<Rightarrow> rmatch option" where
  "rxFind ic r s = rxFindFrom ic r None s 0"

definition rxReplaceFirst :: "bool \<Rightarrow> rx \<Rightarrow> jstring \<Rightarrow> jstring \<Rightarrow> jstring" where
  "rxReplaceFirst ic r rep s =
     (case rxFind ic r s of None \<Rightarrow> s | Some m \<Rightarrow> take (m_index m) s @ rep @ m_after m)"

function rxReplaceWith ::
  "bool \<Rightarrow> rx \<Rightarrow> (jstring \<Rightarrow> jstring) \<Rightarrow> codeunit option \<Rightarrow> jstring \<Rightarrow> jstring" where
  "rxReplaceWith ic r f p s =
     (case execAt ic r p s of
        None \<Rightarrow> (case s of [] \<Rightarrow> [] | c # cs \<Rightarrow> c # rxReplaceWith ic r f (Some c) cs)
      | Some st \<Rightarrow>
          (if length s - length (rest st) = 0
           then f [] @ (case s of [] \<Rightarrow> [] | c # cs \<Rightarrow> c # rxReplaceWith ic r f (Some c) cs)
           else f (take (length s - length (rest st)) s) @ rxReplaceWith ic r f (prev st) (rest st)))"
  by pat_completeness auto
termination
  by (relation "measure (\<lambda>(ic, r, f, p, s). length s)") auto

declare rxReplaceWith.simps [simp del]

definition rxReplaceAll :: "bool \<Rightarrow> rx \<Rightarrow> jstring \<Rightarrow> jstring \<Rightarrow> jstring" where
  "rxReplaceAll ic r rep s = rxReplaceWith ic r (\<lambda>_. rep) None s"

function rxMatchAllFrom ::
  "bool \<Rightarrow> rx \<Rightarrow> codeunit option \<Rightarrow> jstring \<Rightarrow> nat \<Rightarrow> rmatch list" where
  "rxMatchAllFrom ic r p s i =
     (case execAt ic r p s of
        None \<Rightarrow> (case s of [] \<Rightarrow> [] | c # cs \<Rightarrow> rxMatchAllFrom ic r (Some c) cs (Suc i))
      | Some st \<Rightarrow>
          mkMatch i s st #
          (if length s - length (rest st) = 0
           then (case s of [] \<Rightarrow> [] | c # cs \<Rightarrow> rxMatchAllFrom ic r (Some c) cs (Suc i))
           else rxMatchAllFrom ic r (prev st) (rest st) (i + (length s - length (rest st)))))"
  by pat_completeness auto
termination
  by (relation "measure (\<lambda>(ic, r, p, s, i). length s)") auto

declare rxMatchAllFrom.simps [simp del]

definition rxMatchAll :: "bool \<Rightarrow> rx \<Rightarrow> jstring \<Rightarrow> rmatch list" where
  "rxMatchAll ic r s = rxMatchAllFrom ic r None s 0"

text \<open>
  \<open>String.prototype.split\<close> with a pattern: \<open>cur\<close> is the piece collected since the
  last separator; an empty match directly after a separator is not a separator.
\<close>

function splitLoop ::
  "bool \<Rightarrow> rx \<Rightarrow> codeunit option \<Rightarrow> jstring \<Rightarrow> jstring \<Rightarrow> jstring list" where
  "splitLoop ic r p s cur =
     (case s of
        [] \<Rightarrow> [cur]
      | c # cs \<Rightarrow>
          (case execAt ic r p s of
             None \<Rightarrow> splitLoop ic r (Some c) cs (cur @ [c])
           | Some st \<Rightarrow>
               (if length s - length (rest st) = 0
                then (if cur = [] then splitLoop ic r (Some c) cs [c]
                      else cur # splitLoop ic r (Some c) cs [c])
                else cur # splitLoop ic r (prev st) (rest st) [])))"
  by pat_completeness auto
termination
  by (relation "measure (\<lambda>(ic, r, p, s, cur). length s)") auto

declare splitLoop.simps [simp del]

definition rxSplit :: "bool \<Rightarrow> rx \<Rightarrow> jstring \<Rightarrow> jstring list" where
  "rxSplit ic r s =
     (if s = [] then (case execAt ic r None [] of None \<Rightarrow> [[]] | Some _ \<Rightarrow> [])
      else splitLoop ic r None s [])"


section \<open>Text extraction\<close>

text \<open>
  \<open>cleanHTML\<close>, \<open>extractTitle\<close> and \<open>parsePublishedDate\<close> are the same in
  \<open>poll-rss.js\<close> and in the ARTP poller. The first seven steps of \<open>cleanHTML\<close>
  remove the blocks of seven tags, each with the pattern \<open><tag\b[\s\S]*?</tag>\<close>.
\<close>

definition blockRx :: "string \<Rightarrow> rx" where
  "blockRx tag = seq [Lit (''<'' @ tag), WordB, LazyStar anyCU, Lit (''</'' @ tag @ ''>'')]"

definition blockTags :: "string list" where
  "blockTags = [''script'', ''style'', ''nav'', ''header'', ''footer'', ''aside'', ''noscript'']"

definition removeBlocks :: "jstring \<Rightarrow> jstring" where
  "removeBlocks html = foldl (\<lambda>s tag. rxReplaceAll True (blockRx tag) [] s) html blockTags"

definition closingTagRx :: rx where
  "closingTagRx =
     seq [Lit ''</'',
          alts [Lit ''p'', Lit ''div'', Cat (Lit ''h'') (Cls False [Rg (CHR ''1'') (CHR ''6'')]),
                Lit ''li'', Lit ''tr'', Lit ''br'', Lit ''hr''],
          Star (notCh (CHR ''>'')), Lit ''>'']"

definition breakTagRx :: rx where
  "breakTagRx =
     seq [Lit ''<'', alts [Lit ''br'', Lit ''hr''], Star spaceRx, opt (Lit ''/''), Lit ''>'']"

definition anyTagRx :: rx where
  "anyTagRx = seq [Lit ''<'', plus (notCh (CHR ''>'')), Lit ''>'']"

definition numericEntityRx :: rx where
  "numericEntityRx = seq [Lit ''&#'', plus digitRx, Lit '';'']"

definition blanksRx :: rx where
  "blanksRx = plus (Cls False [Ch (CHR '' ''), Cu 9])"

text \<open>The named entities in the order of the source, each with its replacement.\<close>

definition entityTable :: "(string \<times> jstring) list" where
  "entityTable =
     [(''&nbsp;'', [32]), (''&amp;'', [38]), (''&lt;'', [60]), (''&gt;'', [62]),
      (''&quot;'', [34]), (''&#39;'', [39]), (''&rsquo;'', [39]), (''&lsquo;'', [39]),
      (''&rdquo;'', [34]), (''&ldquo;'', [34]), (''&mdash;'', [mdash]), (''&ndash;'', [ndash])]"

definition decodeEntities :: "jstring \<Rightarrow> jstring" where
  "decodeEntities s =
     rxReplaceAll True numericEntityRx []
       (foldl (\<lambda>t (name, rep). rxReplaceAll True (Lit name) rep t) s entityTable)"

definition normaliseSpace :: "jstring \<Rightarrow> jstring" where
  "normaliseSpace s =
     trim (rxReplaceAll False (seq [nl, nl, nl, Star nl]) [10, 10]
            (rxReplaceAll False (seq [nl, blanksRx]) [10]
              (rxReplaceAll False blanksRx [32] s)))"

definition stripTags :: "jstring \<Rightarrow> jstring" where
  "stripTags s =
     rxReplaceAll False anyTagRx [32]
       (rxReplaceAll True breakTagRx [10]
         (rxReplaceAll True closingTagRx [10] s))"

definition cleanHTML :: "jstring \<Rightarrow> jstring" where
  "cleanHTML html = normaliseSpace (decodeEntities (stripTags (removeBlocks html)))"

text \<open>\<open>.replace(/<[^>]+>/g, '').replace(/\s+/g, ' ').trim()\<close>, used on every title.\<close>

definition plainText :: "jstring \<Rightarrow> jstring" where
  "plainText s =
     trim (rxReplaceAll False (plus spaceRx) [32] (rxReplaceAll False anyTagRx [] s))"

definition elementRx :: "string \<Rightarrow> rx" where
  "elementRx tag =
     seq [Lit (''<'' @ tag), Star (notCh (CHR ''>'')), Lit ''>'', Grp 1 (LazyStar anyCU),
          Lit (''</'' @ tag @ ''>'')]"

definition siteSuffixRx :: rx where
  "siteSuffixRx =
     seq [Star spaceRx, Cls False [Ch (CHR ''|''), Cu ndash, Cu mdash, Ch (CHR ''-'')], Star spaceRx,
          Grp 1 (alts [Lit ''NICE'', Lit ''NHS'', Lit ''England'', Lit ''ARTP'', Lit ''NCL'']),
          Star dot, EndS]"

definition extractTitle :: "jstring \<Rightarrow> jstring" where
  "extractTitle html =
     (case rxFind True (elementRx ''title'') html of
        Some m \<Rightarrow> trim (rxReplaceFirst True siteSuffixRx [] (plainText (group 1 m)))
      | None \<Rightarrow>
          (case rxFind True (elementRx ''h1'') html of
             Some m \<Rightarrow> plainText (group 1 m)
           | None \<Rightarrow> lit ''Untitled''))"

definition metaDateRx :: rx where
  "metaDateRx =
     seq [Lit ''<meta'', Star (notCh (CHR ''>'')), alts [Lit ''name'', Lit ''property''], Lit ''='', dq,
          alts [Lit ''article:published_time'', Lit ''datePublished'', Lit ''date''], dq,
          Star (notCh (CHR ''>'')), Lit ''content='', dq, Grp 1 (plus notDq), dq]"

definition timeElRx :: rx where
  "timeElRx =
     seq [Lit ''<time'', Star (notCh (CHR ''>'')), Lit ''datetime='', dq, Grp 1 (plus notDq), dq]"

definition parsePublishedDate :: "jstring \<Rightarrow> jstring option" where
  "parsePublishedDate html =
     (case rxFind True metaDateRx html of
        Some m \<Rightarrow> Some (splitFirst (cu (CHR ''T'')) (group 1 m))
      | None \<Rightarrow>
          (case rxFind True timeElRx html of
             Some m \<Rightarrow> Some (splitFirst (cu (CHR ''T'')) (group 1 m))
           | None \<Rightarrow> None))"

text \<open>
  The container patterns of \<open>extractContent\<close> and \<open>extractARTPContent\<close>:
  a \<open>div\<close> selected by an attribute, closed by a \<open></div>\<close> that a \<open>div\<close>,
  \<open>footer\<close> or \<open>nav\<close> follows.
\<close>

definition divTailRx :: "rx list" where
  "divTailRx =
     [Star (notCh (CHR ''>'')), Lit ''>'', Grp 1 (LazyStar anyCU), Lit ''</div>'', Star spaceRx,
      Lit ''<'', alts [Lit ''div'', Lit ''footer'', Lit ''nav'']]"

definition divClassRx :: "string \<Rightarrow> rx" where
  "divClassRx w =
     seq ([Lit ''<div'', Star (notCh (CHR ''>'')), Lit ''class='', dq, Star notDq, Lit w,
           Star notDq, dq] @ divTailRx)"

definition divIdContentRx :: rx where
  "divIdContentRx =
     seq ([Lit ''<div'', Star (notCh (CHR ''>'')), Lit ''id='', dq, Lit ''content'', dq] @ divTailRx)"

definition patternSets :: "jstring \<Rightarrow> rx list" where
  "patternSets source =
     (if source = lit ''nice''
      then [divClassRx ''chapter'', divIdContentRx, elementRx ''main'', elementRx ''article'']
      else if source = lit ''ncl''
      then [elementRx ''article'', divClassRx ''content'', elementRx ''main'']
      else [divClassRx ''entry-content'', elementRx ''article'', elementRx ''main''])"

text \<open>
  The loop over the patterns: the first pattern whose captured markup is longer than
  100 code units decides; \<open>None\<close> when no pattern qualifies.
\<close>

fun firstContainer :: "rx list \<Rightarrow> jstring \<Rightarrow> jstring option" where
  "firstContainer [] html = None"
| "firstContainer (r # rs) html =
     (case rxFind True r html of
        Some m \<Rightarrow> if length (group 1 m) > 100 then Some (cleanHTML (group 1 m))
                  else firstContainer rs html
      | None \<Rightarrow> firstContainer rs html)"

definition bodyOrDocument :: "jstring \<Rightarrow> jstring" where
  "bodyOrDocument html =
     (case rxFind True (elementRx ''body'') html of
        Some m \<Rightarrow> cleanHTML (group 1 m)
      | None \<Rightarrow> cleanHTML html)"

record link =
  l_url :: jstring
  l_title :: jstring

definition chapterRx :: rx where
  "chapterRx =
     seq [Lit ''<a'', Star (notCh (CHR ''>'')), Lit ''href='', dq,
          Grp 1 (seq [Lit ''/guidance/'', plus (notCh (CHR ''/'')), Lit ''/chapter/'', plus notDq]), dq,
          Star (notCh (CHR ''>'')), Lit ''>'', Grp 2 (LazyStar anyCU), Lit ''</a>'']"

fun chapterLoop :: "rmatch list \<Rightarrow> jstring list \<Rightarrow> link list" where
  "chapterLoop [] seenUrls = []"
| "chapterLoop (m # mt) seenUrls =
     (let chapterUrl = lit ''https://www.nice.org.uk'' @ group 1 m
      in if chapterUrl \<in> set seenUrls then chapterLoop mt seenUrls
         else let title = plainText (group 2 m)
              in if title \<noteq> []
                 then \<lparr>l_url = chapterUrl, l_title = title\<rparr> # chapterLoop mt (chapterUrl # seenUrls)
                 else chapterLoop mt (chapterUrl # seenUrls))"

definition extractContent :: "jstring \<Rightarrow> jstring \<Rightarrow> jstring \<times> link list" where
  "extractContent html source =
     (let found = (case firstContainer (patternSets source) html of None \<Rightarrow> [] | Some c \<Rightarrow> c);
          content = (if found = [] then bodyOrDocument html else found);
          chapterLinks = (if source = lit ''nice''
                          then chapterLoop (rxMatchAll True chapterRx html) [] else [])
      in (content, chapterLinks))"

definition extractARTPContent :: "jstring \<Rightarrow> jstring" where
  "extractARTPContent html =
     (case firstContainer [divClassRx ''article-body'', elementRx ''article'', divClassRx ''content'',
                           elementRx ''main''] html of
        Some c \<Rightarrow> c
      | None \<Rightarrow> bodyOrDocument html)"


section \<open>The persisted documents\<close>

record ArticleMeta =
  wordCount :: nat
  estimatedReadTime :: nat
  description :: jstring

record StoredArticle =
  a_id :: jstring
  a_url :: jstring
  a_title :: jstring
  a_source :: jstring
  a_type :: jstring
  a_publishedDate :: jstring
  a_fetchedDate :: jstring
  a_contentHash :: jstring
  a_content :: jstring
  a_parentUrl :: "jstring option"
  a_metadata :: ArticleMeta

datatype changeType = new_guidance | content_update

record ChangeEvent =
  c_id :: jstring
  c_url :: jstring
  c_title :: jstring
  c_source :: jstring
  c_changeType :: changeType
  c_detectedAt :: jstring
  c_previousHash :: "jstring option"
  c_newHash :: jstring
  c_acknowledged :: bool

text \<open>
  A seen entry of the NICE and ARTP pipelines has no \<open>description\<close> and no
  \<open>publishedDate\<close> key (\<open>None\<close>); an RSS entry has both, the date possibly
  \<open>null\<close> (\<open>Some None\<close>).
\<close>

record SeenEntry =
  s_url :: jstring
  s_title :: jstring
  s_description :: "jstring option"
  s_discovered :: jstring
  s_publishedDate :: "jstring option option"
  s_source :: jstring

record PageFingerprint =
  p_url :: jstring
  p_hash :: jstring
  p_lastChecked :: jstring
  p_lastChanged :: jstring
  p_articlesFound :: nat
  p_newArticlesFound :: nat

record SourceConfig =
  sc_enabled :: "bool option"
  sc_keywords :: "jstring list option"
  sc_excludeKeywords :: "jstring list option"
  sc_rssOnly :: "bool option"

record RunStats =
  rssPoller :: "jstring option"
  rssPollerResults :: "(nat \<times> nat \<times> nat \<times> nat) option"
  htmlPoller :: "jstring option"

record RunConfig =
  sources :: "jstring \<rightharpoonup> SourceConfig"
  lastRunStats :: RunStats
  unreadChanges :: "nat option"

text \<open>
  The state of a run: the five documents as the poller holds them in memory between
  \<open>readData\<close> and \<open>writeData\<close>, the requests sent so far and the number of times
  the system clock has been read.
\<close>

record run =
  seen :: "jstring \<rightharpoonup> SeenEntry"
  guidance :: "jstring \<rightharpoonup> StoredArticle"
  changes :: "jstring \<rightharpoonup> ChangeEvent"
  pageHashes :: "jstring \<rightharpoonup> PageFingerprint"
  config :: RunConfig
  requests :: "jstring list"
  clockReads :: nat

definition persisted ::
  "run \<Rightarrow> (jstring \<rightharpoonup> SeenEntry) \<times> (jstring \<rightharpoonup> StoredArticle) \<times> (jstring \<rightharpoonup> ChangeEvent) \<times>
          (jstring \<rightharpoonup> PageFingerprint) \<times> RunConfig" where
  "persisted s = (seen s, guidance s, changes s, pageHashes s, config s)"

section \<open>The platform\<close>

text \<open>
  What the pollers take from Node and from the network, as parameters: the SHA-256 hex
  digest of \<open>crypto\<close>, \<open>String.prototype.toLowerCase\<close>, \<open>Date.prototype.toISOString\<close>
  and the date parser of \<open>new Date(string)\<close> (\<open>None\<close> for an invalid date), the answer
  to the n-th request (\<open>None\<close> for a network error or a response that is not 2xx) and
  the n-th reading of the clock in milliseconds.
\<close>

record env =
  sha256hex :: "jstring \<Rightarrow> jstring"
  toLowerCase :: "jstring \<Rightarrow> jstring"
  toISOString :: "int \<Rightarrow> jstring"
  parseDate :: "jstring \<Rightarrow> int option"
  respond :: "nat \<Rightarrow> jstring \<Rightarrow> jstring option"
  clock :: "nat \<Rightarrow> nat"

datatype error = RangeError

definition hashString :: "env \<Rightarrow> jstring \<Rightarrow> jstring" where
  "hashString e str = take 16 (sha256hex e str)"

definition fetchPage :: "env \<Rightarrow> jstring \<Rightarrow> run \<Rightarrow> jstring option \<times> run" where
  "fetchPage e url s = (respond e (length (requests s)) url, s\<lparr>requests := requests s @ [url]\<rparr>)"

definition readClock :: "env \<Rightarrow> run \<Rightarrow> nat \<times> run" where
  "readClock e s = (clock e (clockReads s), s\<lparr>clockReads := Suc (clockReads s)\<rparr>)"

text \<open>Decimal digits of a number, as a template literal prints \<open>Date.now()\<close>.\<close>

function showNat :: "nat \<Rightarrow> jstring" where
  "showNat n = (if n < 10 then [48 + n] else showNat (n div 10) @ [48 + n mod 10])"
  by pat_completeness auto
termination
  by (relation "measure (\<lambda>n. n)") auto

declare showNat.simps [simp del]

text \<open>\<open>x || d\<close> on a string that may be absent: the empty string is falsy.\<close>

definition orElse :: "jstring option \<Rightarrow> jstring \<Rightarrow> jstring" where
  "orElse x d = (case x of None \<Rightarrow> d | Some v \<Rightarrow> if v = [] then d else v)"

definition truthy :: "jstring option \<Rightarrow> jstring option" where
  "truthy x = (case x of None \<Rightarrow> None | Some v \<Rightarrow> if v = [] then None else Some v)"

definition countWords :: "jstring \<Rightarrow> nat" where
  "countWords content = length (rxSplit False (plus spaceRx) content)"

text \<open>\<open>Math.ceil(wordCount / 250)\<close> on a word count.\<close>

definition readTime :: "nat \<Rightarrow> nat" where
  "readTime n = (n + 249) div 250"

definition bumpUnread :: "RunConfig \<Rightarrow> RunConfig" where
  "bumpUnread c = c\<lparr>unreadChanges := Some ((case unreadChanges c of None \<Rightarrow> 0 | Some n \<Rightarrow> n) + 1)\<rparr>"

section \<open>The crawl-and-store engine\<close>

record metadata =
  md_title :: "jstring option"
  md_description :: "jstring option"
  md_publishedDate :: "jstring option"

text \<open>
  The second half of \<open>crawlAndStore\<close> and of \<open>crawlAndStoreARTP\<close>, after the
  content-length gate: fingerprints, lookup, classification, upsert, change event and
  counter. \<open>None\<close> is the early return of the unchanged case.
\<close>

definition storeArticle ::
  "env \<Rightarrow> jstring \<Rightarrow> jstring \<Rightarrow> jstring \<Rightarrow> metadata \<Rightarrow> jstring option \<Rightarrow> jstring \<Rightarrow> jstring \<Rightarrow>
   jstring \<Rightarrow> run \<Rightarrow> run option" where
  "storeArticle e url source type md parentUrl html title content s =
     (let contentHash = hashString e content;
          urlHash = hashString e url;
          storageKey = lit ''content:'' @ urlHash;
          existing = guidance s storageKey;
          isNew = (existing = None);
          hasChanged = (case existing of None \<Rightarrow> False | Some a \<Rightarrow> a_contentHash a \<noteq> contentHash)
      in if \<not> isNew \<and> \<not> hasChanged then None
         else
           let (t, s1) = readClock e s;
               now = toISOString e (int t);
               wordCount = countWords content;
               article =
                 \<lparr>a_id = storageKey, a_url = url, a_title = title, a_source = source,
                  a_type = (if type = [] then lit ''article'' else type),
                  a_publishedDate =
                    orElse (md_publishedDate md)
                      (orElse (parsePublishedDate html) (splitFirst (cu (CHR ''T'')) now)),
                  a_fetchedDate = now, a_contentHash = contentHash, a_content = content,
                  a_parentUrl = truthy parentUrl,
                  a_metadata =
                    \<lparr>wordCount = wordCount, estimatedReadTime = readTime wordCount,
                     description = orElse (md_description md) (substring content 0 200)\<rparr>\<rparr>;
               changeType = (if isNew then new_guidance else content_update);
               (ms, s2) = readClock e s1;
               changeKey = lit ''change:'' @ showNat ms @ lit '':'' @ urlHash;
               change =
                 \<lparr>c_id = changeKey, c_url = url, c_title = title, c_source = source,
                  c_changeType = changeType, c_detectedAt = now,
                  c_previousHash =
                    (case existing of None \<Rightarrow> None | Some a \<Rightarrow> truthy (Some (a_contentHash a))),
                  c_newHash = contentHash, c_acknowledged = False\<rparr>
           in Some (s2\<lparr>guidance := (guidance s2)(storageKey \<mapsto> article),
                       changes := (changes s2)(changeKey \<mapsto> change),
                       config := bumpUnread (config s2)\<rparr>))"

text \<open>
  \<open>crawlAndStore\<close> with the loop over the chapter links of a NICE page, which calls
  it again one level deeper. The pauses between two requests are not modelled.
\<close>

function crawlAndStore ::
    "env \<Rightarrow> jstring \<Rightarrow> jstring \<Rightarrow> jstring \<Rightarrow> metadata \<Rightarrow> nat \<Rightarrow> nat \<Rightarrow> jstring option \<Rightarrow> run \<Rightarrow> run"
  and crawlChapters ::
    "env \<Rightarrow> jstring \<Rightarrow> jstring \<Rightarrow> link list \<Rightarrow> nat \<Rightarrow> nat \<Rightarrow> run \<Rightarrow> run" where
  "crawlAndStore e url source type md crawlDepth maxDepth parentUrl s =
     (case fetchPage e url s of
        (None, s1) \<Rightarrow> s1
      | (Some html, s1) \<Rightarrow>
          (let content = fst (extractContent html source);
               chapterLinks = snd (extractContent html source);
               title = orElse (md_title md) (extractTitle html)
           in if content = [] \<or> length content < 50 then s1
              else
                (case storeArticle e url source type md parentUrl html title content s1 of
                   None \<Rightarrow> s1
                 | Some s2 \<Rightarrow>
                     if source = lit ''nice'' \<and> crawlDepth < maxDepth \<and> chapterLinks \<noteq> []
                     then crawlChapters e title url chapterLinks (crawlDepth + 1) maxDepth s2
                     else s2)))"
| "crawlChapters e title url [] depth maxDepth s = s"
| "crawlChapters e title url (chapter # others) depth maxDepth s =
     crawlChapters e title url others depth maxDepth
       (crawlAndStore e (l_url chapter) (lit ''nice'') (lit ''chapter'')
          \<lparr>md_title = Some (title @ lit '' '' @ [mdash] @ lit '' '' @ l_title chapter),
           md_description = None, md_publishedDate = None\<rparr>
          depth maxDepth (Some url) s)"
  by pat_completeness auto
termination
  by (relation "measures
        [\<lambda>x. case x of Inl (e, url, source, type, md, d, m, p, s) \<Rightarrow> 2 * (m - d)
                       | Inr (e, title, url, ls, d, m, s) \<Rightarrow> 2 * (m - d) + 1,
         \<lambda>x. case x of Inl _ \<Rightarrow> 0 | Inr (e, title, url, ls, d, m, s) \<Rightarrow> length ls]") auto

declare crawlAndStore.simps [simp del]

definition crawlAndStoreARTP :: "env \<Rightarrow> jstring \<Rightarrow> jstring \<Rightarrow> jstring option \<Rightarrow> run \<Rightarrow> run" where
  "crawlAndStoreARTP e url title date s =
     (case fetchPage e url s of
        (None, s1) \<Rightarrow> s1
      | (Some html, s1) \<Rightarrow>
          (let content = extractARTPContent html;
               resolvedTitle = orElse (Some title) (extractTitle html)
           in if content = [] \<or> length content < 50 then s1
              else
                (case storeArticle e url (lit ''artp'') (lit ''article'')
                        \<lparr>md_title = Some title, md_description = None, md_publishedDate = date\<rparr>
                        None html resolvedTitle content s1 of
                   None \<Rightarrow> s1
                 | Some s2 \<Rightarrow> s2)))"


section \<open>The source pipelines of the RSS poller\<close>

definition PRIMARY_CARE_KEYWORDS :: "jstring list" where
  "PRIMARY_CARE_KEYWORDS = map lit
     [''diabetes'', ''hypertension'', ''ckd'', ''chronic kidney'', ''cardiovascular'',
      ''lipids'', ''cholesterol'', ''respiratory'', ''asthma'', ''copd'',
      ''mental health'', ''depression'', ''anxiety'', ''infection'', ''antibiotic'',
      ''contraception'', ''thyroid'', ''anticoagulation'', ''warfarin'',
      ''cancer screening'', ''cervical'', ''bowel screening'', ''breast screening'',
      ''heart failure'', ''atrial fibrillation'', ''stroke'', ''obesity'',
      ''dementia'', ''osteoporosis'', ''primary care'']"

definition PA_INCLUDE_KEYWORDS :: "jstring list" where
  "PA_INCLUDE_KEYWORDS = map lit
     [''guideline'', ''guidance'', ''pathway'', ''protocol'', ''recommendation'',
      ''clinical'', ''diagnosis'', ''treatment'', ''management'', ''referral'',
      ''screening'', ''monitoring'', ''alert'', ''safety'', ''update'', ''bulletin'', ''reminder'',
      ''diabetes'', ''hypertension'', ''ckd'', ''chronic kidney'', ''cardiovascular'',
      ''lipids'', ''cholesterol'', ''respiratory'', ''asthma'', ''copd'',
      ''mental health'', ''depression'', ''anxiety'', ''infection'', ''antibiotic'',
      ''contraception'', ''thyroid'', ''anticoagulation'', ''warfarin'',
      ''cancer'', ''heart failure'', ''atrial fibrillation'', ''stroke'', ''obesity'',
      ''dementia'', ''osteoporosis'', ''metabolic'', ''musculoskeletal'',
      ''arthritis'', ''gout'', ''eczema'', ''dermatology'', ''epilepsy'',
      ''patient'', ''primary care'', ''gp '']"

definition PA_EXCLUDE_KEYWORDS :: "jstring list" where
  "PA_EXCLUDE_KEYWORDS = map lit
     [''student training'', ''sample container'', ''proficiency testing'',
      ''external quality'', ''practice manager'', ''practice vacancy'',
      ''job vacancy'', ''phlebotomy training'', ''gpit'', ''it support'',
      ''protected learning time'', ''webinar registration'', ''training event'',
      ''training course'', ''staff survey'', ''practice administrator'',
      ''workforce planning'', ''greener nhs'', ''carbon footprint'',
      ''information governance'', ''systems & facilitation'', ''buying group'',
      ''digital innovation'', ''practice vacancies'', ''research opportunities'',
      ''ambulance'', ''handover'', ''waiting list'',
      ''medicines supply'', ''supply notification'', ''medicines shortage'']"

text \<open>\<open>config.sources?.[source]?.field || fallback\<close>: any array, also the empty one, is truthy.\<close>

definition sourceKeywords ::
  "RunConfig \<Rightarrow> jstring \<Rightarrow> (SourceConfig \<Rightarrow> jstring list option) \<Rightarrow> jstring list \<Rightarrow> jstring list" where
  "sourceKeywords c source field fallback =
     (case sources c source of
        None \<Rightarrow> fallback
      | Some sc \<Rightarrow> (case field sc of None \<Rightarrow> fallback | Some ks \<Rightarrow> ks))"

text \<open>\<open>keywords.some(kw => text.includes(kw.toLowerCase()))\<close>.\<close>

definition someKeyword :: "env \<Rightarrow> jstring list \<Rightarrow> jstring \<Rightarrow> bool" where
  "someKeyword e kws text \<longleftrightarrow> (\<exists>kw \<in> set kws. includesStr text (toLowerCase e kw))"

definition guidanceRx :: rx where
  "guidanceRx =
     seq [Lit ''<a'', Star (notCh (CHR ''>'')), Lit ''href='', dq,
          Grp 1 (seq [Lit ''/guidance/'',
                      alts [Lit ''ng'', Lit ''cg'', Lit ''ph'', Lit ''qs'', Lit ''ta'', Lit ''dg'',
                            Lit ''ipg'', Lit ''hst'', Lit ''es'', Lit ''mtg''],
                      plus digitRx]), dq,
          Star (notCh (CHR ''>'')), Lit ''>'', Grp 2 (LazyStar anyCU), Lit ''</a>'']"

text \<open>
  The body of the loop of \<open>fetchNICEGuidance\<close> on one match; the accumulator holds
  \<open>seenUrls\<close>, \<open>count\<close> and the documents.
\<close>

definition niceItem ::
  "env \<Rightarrow> jstring list \<Rightarrow> rmatch \<Rightarrow> jstring list \<times> nat \<times> run \<Rightarrow> jstring list \<times> nat \<times> run" where
  "niceItem e kws m acc =
     (case acc of (seenUrls, count, s) \<Rightarrow>
        (let path = group 1 m
         in if path \<in> set seenUrls then (seenUrls, count, s)
            else
              let guidanceUrl = lit ''https://www.nice.org.uk'' @ path;
                  title = plainText (group 2 m)
              in if title = [] then (path # seenUrls, count, s)
                 else if kws \<noteq> [] \<and> \<not> someKeyword e kws (toLowerCase e title)
                 then (path # seenUrls, count, s)
                 else
                   let hash = hashString e guidanceUrl;
                       seenKey = lit ''nice:'' @ hash
                   in if seen s seenKey \<noteq> None then (path # seenUrls, count, s)
                      else
                        let (t, s1) = readClock e s;
                            s2 = s1\<lparr>seen := (seen s1)(seenKey \<mapsto>
                                   \<lparr>s_url = guidanceUrl, s_title = title, s_description = None,
                                    s_discovered = toISOString e (int t), s_publishedDate = None,
                                    s_source = lit ''nice''\<rparr>)\<rparr>;
                            s3 = crawlAndStore e guidanceUrl (lit ''nice'') (lit ''guidance'')
                                   \<lparr>md_title = Some title, md_description = None,
                                    md_publishedDate = None\<rparr> 0 1 None s2
                        in (path # seenUrls, count + 1, s3)))"

definition fetchNICEGuidance :: "env \<Rightarrow> run \<Rightarrow> nat \<times> run" where
  "fetchNICEGuidance e s =
     (case fetchPage e (lit ''https://www.nice.org.uk/guidance/published?ngt=Guidelines&ps=50'') s of
        (None, s1) \<Rightarrow> (0, s1)
      | (Some html, s1) \<Rightarrow>
          (let kws = sourceKeywords (config s1) (lit ''nice'') sc_keywords PRIMARY_CARE_KEYWORDS;
               matches = rxMatchAll True guidanceRx html
           in snd (foldl (\<lambda>acc m. niceItem e kws m acc) ([], 0, s1) matches)))"

text \<open>The fields of one \<open><item>\<close> of a feed.\<close>

definition cdataRx :: "string \<Rightarrow> rx" where
  "cdataRx tag =
     seq [Lit (''<'' @ tag @ ''><![CDATA[''), Grp 1 (LazyStar anyCU), Lit ('']]></'' @ tag @ ''>'')]"

definition plainTagRx :: "string \<Rightarrow> rx" where
  "plainTagRx tag = seq [Lit (''<'' @ tag @ ''>''), Grp 1 (LazyStar anyCU), Lit (''</'' @ tag @ ''>'')]"

definition firstGroup :: "rmatch option \<Rightarrow> jstring" where
  "firstGroup m = (case m of None \<Rightarrow> [] | Some x \<Rightarrow> group 1 x)"

definition orMatch :: "rmatch option \<Rightarrow> rmatch option \<Rightarrow> rmatch option" where
  "orMatch a b = (case a of None \<Rightarrow> b | Some x \<Rightarrow> Some x)"

record feedItem =
  f_title :: jstring
  f_link :: jstring
  f_pubDate :: "jstring option"
  f_description :: jstring

definition parseItem :: "jstring \<Rightarrow> feedItem" where
  "parseItem itemXml =
     (let titleMatch = orMatch (rxFind True (cdataRx ''title'') itemXml)
                               (rxFind True (plainTagRx ''title'') itemXml);
          linkMatch = rxFind True (plainTagRx ''link'') itemXml;
          pubDateMatch = rxFind True (plainTagRx ''pubDate'') itemXml;
          descMatch = orMatch (rxFind True (cdataRx ''description'') itemXml)
                              (rxFind True (plainTagRx ''description'') itemXml)
      in \<lparr>f_title = trim (rxReplaceAll False anyTagRx [] (firstGroup titleMatch)),
          f_link = trim (firstGroup linkMatch),
          f_pubDate = truthy (map_option (\<lambda>m. trim (group 1 m)) pubDateMatch),
          f_description = trim (rxReplaceAll False anyTagRx [] (firstGroup descMatch))\<rparr>)"

text \<open>
  The branch \<open>rssOnly\<close> of \<open>fetchRSSSource\<close>: the description of the feed item is
  stored without a request for the page. \<open>new Date(pubDate).toISOString()\<close> throws a
  \<open>RangeError\<close> on a date that does not parse.
\<close>

definition rssStore :: "env \<Rightarrow> jstring \<Rightarrow> feedItem \<Rightarrow> jstring \<Rightarrow> nat \<times> run \<Rightarrow> error + nat \<times> run" where
  "rssStore e source item hash acc =
     (case acc of (count, s) \<Rightarrow>
        (let storageKey = lit ''content:'' @ hash;
             content = (if f_description item \<noteq> [] then f_description item else f_title item);
             contentHash = hashString e content;
             existing = guidance s storageKey;
             isNew = (existing = None);
             hasChanged = (case existing of None \<Rightarrow> False | Some a \<Rightarrow> a_contentHash a \<noteq> contentHash)
         in if isNew \<or> hasChanged
            then
              let (t, s1) = readClock e s;
                  now = toISOString e (int t);
                  wordCount = countWords content
              in (case (case f_pubDate item of
                          None \<Rightarrow> Inr (splitFirst (cu (CHR ''T'')) now)
                        | Some d \<Rightarrow>
                            (case parseDate e d of
                               None \<Rightarrow> Inl RangeError
                             | Some v \<Rightarrow> Inr (splitFirst (cu (CHR ''T'')) (toISOString e v)))) of
                    Inl err \<Rightarrow> Inl err
                  | Inr published \<Rightarrow>
                      let article =
                            \<lparr>a_id = storageKey, a_url = f_link item, a_title = f_title item,
                             a_source = source, a_type = lit ''article'', a_publishedDate = published,
                             a_fetchedDate = now, a_contentHash = contentHash, a_content = content,
                             a_parentUrl = None,
                             a_metadata =
                               \<lparr>wordCount = wordCount, estimatedReadTime = max 1 (readTime wordCount),
                                description = substring content 0 200\<rparr>\<rparr>;
                          (ms, s2) = readClock e s1;
                          changeKey = lit ''change:'' @ showNat ms @ lit '':'' @ hash;
                          change =
                            \<lparr>c_id = changeKey, c_url = f_link item, c_title = f_title item,
                             c_source = source,
                             c_changeType = (if isNew then new_guidance else content_update),
                             c_detectedAt = now,
                             c_previousHash =
                               (case existing of None \<Rightarrow> None
                                | Some a \<Rightarrow> truthy (Some (a_contentHash a))),
                             c_newHash = contentHash, c_acknowledged = False\<rparr>
                      in Inr (count + 1,
                              s2\<lparr>guidance := (guidance s2)(storageKey \<mapsto> article),
                                 changes := (changes s2)(changeKey \<mapsto> change),
                                 config := bumpUnread (config s2)\<rparr>))
            else Inr (count, s)))"

text \<open>The body of the loop of \<open>fetchRSSSource\<close> on one \<open><item>\<close>.\<close>

definition rssItem ::
  "env \<Rightarrow> jstring \<Rightarrow> jstring list \<Rightarrow> jstring list \<Rightarrow> bool \<Rightarrow> jstring \<Rightarrow> nat \<times> run \<Rightarrow> error + nat \<times> run" where
  "rssItem e source includeKeywords excludeKeywords only itemXml acc =
     (case acc of (count, s) \<Rightarrow>
        (let item = parseItem itemXml
         in if f_title item = [] \<or> f_link item = [] then Inr (count, s)
            else
              let textToCheck = toLowerCase e (f_title item @ lit '' '' @ f_description item)
              in if someKeyword e excludeKeywords textToCheck then Inr (count, s)
                 else if includeKeywords \<noteq> [] \<and> \<not> someKeyword e includeKeywords textToCheck
                 then Inr (count, s)
                 else
                   let hash = hashString e (f_link item);
                       seenKey = source @ lit '':'' @ hash
                   in if seen s seenKey \<noteq> None then Inr (count, s)
                      else
                        let (t, s1) = readClock e s;
                            s2 = s1\<lparr>seen := (seen s1)(seenKey \<mapsto>
                                   \<lparr>s_url = f_link item, s_title = f_title item,
                                    s_description = Some (substring (f_description item) 0 500),
                                    s_discovered = toISOString e (int t),
                                    s_publishedDate = Some (f_pubDate item), s_source = source\<rparr>)\<rparr>
                        in if only then rssStore e source item hash (count, s2)
                           else Inr (count + 1,
                                     crawlAndStore e (f_link item) source (lit ''article'')
                                       \<lparr>md_title = Some (f_title item),
                                        md_description = Some (substring (f_description item) 0 500),
                                        md_publishedDate = f_pubDate item\<rparr> 0 0 None s2)))"

fun rssLoop ::
  "env \<Rightarrow> jstring \<Rightarrow> jstring list \<Rightarrow> jstring list \<Rightarrow> bool \<Rightarrow> jstring list \<Rightarrow> nat \<times> run \<Rightarrow> error + nat \<times> run" where
  "rssLoop e source inc exc only [] acc = Inr acc"
| "rssLoop e source inc exc only (x # xs) acc =
     (case rssItem e source inc exc only x acc of
        Inl err \<Rightarrow> Inl err
      | Inr acc' \<Rightarrow> rssLoop e source inc exc only xs acc')"

definition fetchRSSSource :: "env \<Rightarrow> jstring \<Rightarrow> jstring \<Rightarrow> run \<Rightarrow> error + nat \<times> run" where
  "fetchRSSSource e url source s =
     (case fetchPage e url s of
        (None, s1) \<Rightarrow> Inr (0, s1)
      | (Some xml, s1) \<Rightarrow>
          (let items = map (group 1) (rxMatchAll True (plainTagRx ''item'') xml);
               includeKeywords = sourceKeywords (config s1) source sc_keywords PA_INCLUDE_KEYWORDS;
               excludeKeywords = sourceKeywords (config s1) source sc_excludeKeywords PA_EXCLUDE_KEYWORDS;
               only = (case sources (config s1) source of
                         None \<Rightarrow> False | Some sc \<Rightarrow> sc_rssOnly sc = Some True)
           in rssLoop e source includeKeywords excludeKeywords only items (0, s1)))"

definition sourceEnabled :: "RunConfig \<Rightarrow> jstring \<Rightarrow> bool" where
  "sourceEnabled c source \<longleftrightarrow>
     (case sources c source of None \<Rightarrow> True | Some sc \<Rightarrow> sc_enabled sc \<noteq> Some False)"

text \<open>
  \<open>main\<close> of \<open>poll-rss.js\<close> between reading and writing the documents; on \<open>Inl\<close> the
  process exits before any document is written.
\<close>

definition rssMain :: "env \<Rightarrow> run \<Rightarrow> error + run" where
  "rssMain e s =
     (let (nice, s1) = (if sourceEnabled (config s) (lit ''nice'')
                        then fetchNICEGuidance e s else (0, s))
      in case (if sourceEnabled (config s1) (lit ''ncl'')
               then fetchRSSSource e (lit ''https://gps.northcentrallondon.icb.nhs.uk/news/rss'')
                      (lit ''ncl'') s1
               else Inr (0, s1)) of
           Inl err \<Rightarrow> Inl err
         | Inr (ncl, s2) \<Rightarrow>
             (case (if sourceEnabled (config s2) (lit ''nhs'')
                    then fetchRSSSource e (lit ''https://www.england.nhs.uk/feed/'') (lit ''nhs'') s2
                    else Inr (0, s2)) of
                Inl err \<Rightarrow> Inl err
              | Inr (nhs, s3) \<Rightarrow>
                  (let (t, s4) = readClock e s3
                   in Inr (s4\<lparr>config := (config s4)
                            \<lparr>lastRunStats := (lastRunStats (config s4))
                               \<lparr>rssPoller := Some (toISOString e (int t)),
                                rssPollerResults := Some (nice, ncl, nhs, nice + ncl + nhs)\<rparr>\<rparr>\<rparr>))))"


section \<open>The ARTP listing pipeline\<close>

definition ARTP_EXCLUDE_KEYWORDS :: "jstring list" where
  "ARTP_EXCLUDE_KEYWORDS = map lit
     [''student training'', ''student scheme'', ''sample container'', ''proficiency testing'',
      ''external quality'', ''eqa'', ''quality control'', ''qc scheme'',
      ''technician training'', ''training scheme'', ''training course'',
      ''job vacancy'', ''practice vacancy'', ''workforce'']"

record article =
  al_url :: jstring
  al_id :: jstring
  al_title :: jstring
  al_date :: "jstring option"

definition articleRx :: rx where
  "articleRx =
     seq [Lit ''<a'', Star (notCh (CHR ''>'')), Lit ''href='', dq,
          Grp 1 (seq [Lit ''/news/'', Grp 2 (plus digitRx), Lit ''/'', Grp 3 (plus notDq)]), dq,
          Star (notCh (CHR ''>'')), Lit ''>'', Grp 4 (LazyStar anyCU), Lit ''</a>'']"

definition dateRx :: rx where
  "dateRx =
     Grp 1 (seq [digitRx, digitRx, Lit ''/'', digitRx, digitRx, Lit ''/'',
                 digitRx, digitRx, digitRx, digitRx])"

text \<open>\<open>slug.replace(/_/g, ' ').replace(/\b\w/g, c => c.toUpperCase())\<close>.\<close>

definition slugTitle :: "jstring \<Rightarrow> jstring" where
  "slugTitle slug =
     rxReplaceWith False (seq [WordB, Cls False [WordC]]) (map upperASCII) None
       (rxReplaceAll False (Lit ''_'') (lit '' '') slug)"

fun articleLoop :: "jstring \<Rightarrow> rmatch list \<Rightarrow> jstring list \<Rightarrow> article list" where
  "articleLoop html [] seenIds = []"
| "articleLoop html (m # mt) seenIds =
     (let articlePath = group 1 m;
          ident = group 2 m;
          slug = group 3 m
      in if ident \<in> set seenIds then articleLoop html mt seenIds
         else
           let fullUrl = lit ''https://www.artp.org.uk'' @ articlePath;
               inner = plainText (group 4 m);
               title = (if inner = [] \<or> length inner < 3 then slugTitle slug else inner);
               surroundingHtml =
                 substring html (max 0 (indexOf html articlePath - 500))
                   (min (int (length html)) (indexOf html articlePath + 500));
               date = map_option (group 1) (rxFind False dateRx surroundingHtml)
           in \<lparr>al_url = fullUrl, al_id = ident, al_title = title, al_date = date\<rparr>
              # articleLoop html mt (ident # seenIds))"

definition extractARTPArticleLinks :: "jstring \<Rightarrow> article list" where
  "extractARTPArticleLinks html = articleLoop html (rxMatchAll True articleRx html) []"

text \<open>The body of the loop of \<open>checkARTPNews\<close> on one article link.\<close>

definition artpItem :: "env \<Rightarrow> jstring list \<Rightarrow> jstring \<Rightarrow> article \<Rightarrow> nat \<times> run \<Rightarrow> nat \<times> run" where
  "artpItem e excludeKeywords now a acc =
     (case acc of (newCount, s) \<Rightarrow>
        (let hash = hashString e (al_url a);
             seenKey = lit ''artp:'' @ hash
         in if seen s seenKey \<noteq> None then (newCount, s)
            else if someKeyword e excludeKeywords (toLowerCase e (al_title a)) then (newCount, s)
            else
              let s1 = s\<lparr>seen := (seen s)(seenKey \<mapsto>
                         \<lparr>s_url = al_url a, s_title = al_title a, s_description = None,
                          s_discovered = now, s_publishedDate = None, s_source = lit ''artp''\<rparr>)\<rparr>
              in (newCount + 1, crawlAndStoreARTP e (al_url a) (al_title a) (al_date a) s1)))"

definition checkARTPNews :: "env \<Rightarrow> run \<Rightarrow> run" where
  "checkARTPNews e s =
     (let url = lit ''https://www.artp.org.uk/news''
      in case fetchPage e url s of
           (None, s1) \<Rightarrow> s1
         | (Some html, s1) \<Rightarrow>
             (let articleLinks = extractARTPArticleLinks html;
                  fingerprint = joinWith (lit ''|'') (sortStrings (map al_url articleLinks));
                  currentHash = hashString e fingerprint;
                  stored = pageHashes s1 (lit ''artp-news'');
                  previousHash = (case stored of None \<Rightarrow> None | Some p \<Rightarrow> truthy (Some (p_hash p)));
                  (t, s2) = readClock e s1;
                  now = toISOString e (int t)
              in case (if previousHash = Some currentHash then stored else None) of
                   Some p \<Rightarrow> s2\<lparr>pageHashes := (pageHashes s2)(lit ''artp-news'' \<mapsto> p\<lparr>p_lastChecked := now\<rparr>)\<rparr>
                 | None \<Rightarrow>
                     (let excludeKeywords =
                            sourceKeywords (config s2) (lit ''artp'') sc_excludeKeywords ARTP_EXCLUDE_KEYWORDS;
                          (newCount, s3) =
                            foldl (\<lambda>acc a. artpItem e excludeKeywords now a acc) (0, s2) articleLinks
                      in s3\<lparr>pageHashes := (pageHashes s3)(lit ''artp-news'' \<mapsto>
                           \<lparr>p_url = url, p_hash = currentHash, p_lastChecked = now,
                            p_lastChanged =
                              (if newCount > 0 then now
                               else orElse (map_option p_lastChanged stored) now),
                            p_articlesFound = length articleLinks,
                            p_newArticlesFound = newCount\<rparr>)\<rparr>)))"

text \<open>\<open>main\<close> of the ARTP poller between reading and writing the documents.\<close>

definition artpMain :: "env \<Rightarrow> run \<Rightarrow> run" where
  "artpMain e s =
     (let s1 = (if sourceEnabled (config s) (lit ''artp'') then checkARTPNews e s else s);
          (t, s2) = readClock e s1
      in s2\<lparr>config := (config s2)
            \<lparr>lastRunStats := (lastRunStats (config s2))\<lparr>htmlPoller := Some (toISOString e (int t))\<rparr>\<rparr>\<rparr>)"

section \<open>The data client\<close>

datatype matchType = title_match | content_match

record searchItem =
  r_id :: jstring
  r_url :: jstring
  r_title :: jstring
  r_source :: jstring
  r_publishedDate :: jstring
  r_fetchedDate :: jstring
  r_excerpt :: jstring
  r_wordCount :: nat
  r_matchType :: matchType

record searchResult =
  items :: "searchItem list"
  total :: nat
  query :: jstring

text \<open>
  What the data client takes from the browser at one call of \<open>Api.search\<close>:
  \<open>toLowerCase\<close>, the date parser, \<open>Array.prototype.sort\<close> (whose order is left to
  the engine where the comparison function is not a consistent order), \<open>Date.now()\<close>,
  and the answers to the three requests of \<open>loadData\<close>. A request is rejected
  (\<open>FetchFailed\<close>), answered with a status that is not 2xx (\<open>NotOk\<close>), answered with a
  body that is not JSON (\<open>BadBody\<close>) or answered with a document. The guidance and
  changes documents are the entries of the object in the order of \<open>Object.values\<close>;
  \<open>None\<close> for the configuration is the empty object.
\<close>

datatype 'a response = FetchFailed | NotOk | BadBody | Body 'a

datatype failure = LoadFailed | TypeError

record browser =
  b_toLowerCase :: "jstring \<Rightarrow> jstring"
  b_parseDate :: "jstring \<Rightarrow> int option"
  b_sort :: "(searchItem \<Rightarrow> searchItem \<Rightarrow> int) \<Rightarrow> searchItem list \<Rightarrow> searchItem list"
  b_now :: nat
  b_guidanceJson :: "(jstring \<times> StoredArticle) list response"
  b_changesJson :: "(jstring \<times> ChangeEvent) list response"
  b_configJson :: "RunConfig option response"

text \<open>The module variables \<open>_guidance\<close>, \<open>_changes\<close>, \<open>_config\<close> (\<open>None\<close> is \<open>null\<close>) and \<open>_lastFetch\<close>.\<close>

record cache =
  guidanceDoc :: "(jstring \<times> StoredArticle) list option"
  changesDoc :: "(jstring \<times> ChangeEvent) list option"
  configDoc :: "RunConfig option option"
  lastFetch :: nat

definition CACHE_TTL :: int where
  "CACHE_TTL = 5 * 60 * 1000"

text \<open>\<open>res.ok ? await res.json() : {}\<close>: \<open>None\<close> when \<open>json()\<close> rejects.\<close>

definition readBody :: "'a response \<Rightarrow> 'a \<Rightarrow> 'a option" where
  "readBody r dflt = (case r of NotOk \<Rightarrow> Some dflt | Body x \<Rightarrow> Some x | _ \<Rightarrow> None)"

text \<open>
  \<open>loadData\<close>: the first component is the rejection, if any. The three requests are
  awaited together, then the bodies are read one after the other, each assigned to its
  variable before the next is read; \<open>_lastFetch\<close> is set last.
\<close>

definition loadData :: "browser \<Rightarrow> bool \<Rightarrow> cache \<Rightarrow> failure option \<times> cache" where
  "loadData b force c =
     (if \<not> force \<and> guidanceDoc c \<noteq> None \<and> int (b_now b) - int (lastFetch c) < CACHE_TTL
      then (None, c)
      else if b_guidanceJson b = FetchFailed \<or> b_changesJson b = FetchFailed \<or>
              b_configJson b = FetchFailed
      then (Some LoadFailed, c)
      else
        (case readBody (b_guidanceJson b) [] of
           None \<Rightarrow> (Some LoadFailed, c)
         | Some g \<Rightarrow>
             (case readBody (b_changesJson b) [] of
                None \<Rightarrow> (Some LoadFailed, c\<lparr>guidanceDoc := Some g\<rparr>)
              | Some ch \<Rightarrow>
                  (case readBody (b_configJson b) None of
                     None \<Rightarrow> (Some LoadFailed, c\<lparr>guidanceDoc := Some g, changesDoc := Some ch\<rparr>)
                   | Some cf \<Rightarrow>
                       (None, \<lparr>guidanceDoc = Some g, changesDoc = Some ch, configDoc = Some cf,
                               lastFetch = b_now b\<rparr>)))))"

text \<open>
  The body of the loop of \<open>Api.search\<close> on one stored article: \<open>None\<close> when the
  article is skipped.
\<close>

definition searchOne :: "browser \<Rightarrow> jstring \<Rightarrow> jstring \<Rightarrow> StoredArticle \<Rightarrow> searchItem option" where
  "searchOne b q source item =
     (if source \<noteq> lit ''all'' \<and> a_source item \<noteq> source then None
      else
        let titleMatch = includesStr (b_toLowerCase b (a_title item)) q;
            contentMatch = includesStr (b_toLowerCase b (a_content item)) q
        in if \<not> titleMatch \<and> \<not> contentMatch then None
           else
             let excerpt =
                   (if contentMatch \<and> a_content item \<noteq> []
                    then
                      let idx = indexOf (b_toLowerCase b (a_content item)) q;
                          start = max 0 (idx - 100);
                          stop = min (int (length (a_content item))) (idx + int (length q) + 100)
                      in (if start > 0 then lit ''...'' else []) @
                         substring (a_content item) start stop @
                         (if stop < int (length (a_content item)) then lit ''...'' else [])
                    else description (a_metadata item))
             in Some \<lparr>r_id = a_id item, r_url = a_url item, r_title = a_title item,
                      r_source = a_source item, r_publishedDate = a_publishedDate item,
                      r_fetchedDate = a_fetchedDate item, r_excerpt = excerpt,
                      r_wordCount = wordCount (a_metadata item),
                      r_matchType = (if titleMatch then title_match else content_match)\<rparr>)"

text \<open>
  The comparison function handed to the sort: title matches first, then the newer date
  first; a date that does not parse makes the difference \<open>NaN\<close>, which a sort reads
  as 0.
\<close>

definition dateOf :: "browser \<Rightarrow> searchItem \<Rightarrow> int option" where
  "dateOf b r = b_parseDate b (if r_publishedDate r \<noteq> [] then r_publishedDate r else r_fetchedDate r)"

definition compareResults :: "browser \<Rightarrow> searchItem \<Rightarrow> searchItem \<Rightarrow> int" where
  "compareResults b x y =
     (if r_matchType x \<noteq> r_matchType y then (if r_matchType x = title_match then - 1 else 1)
      else (case (dateOf b y, dateOf b x) of (Some v, Some w) \<Rightarrow> v - w | _ \<Rightarrow> 0))"

text \<open>
  \<open>Api.search\<close>: it awaits \<open>loadData()\<close> before it looks at the query and is rejected
  when the load is; the second component is the state of the module variables after
  the call. \<open>Object.values\<close> of \<open>null\<close> would throw a \<open>TypeError\<close>.
\<close>

definition search ::
  "browser \<Rightarrow> cache \<Rightarrow> jstring \<Rightarrow> jstring \<Rightarrow> (failure + searchResult) \<times> cache" where
  "search b c qry source =
     (case loadData b False c of
        (Some err, c') \<Rightarrow> (Inl err, c')
      | (None, c') \<Rightarrow>
          (let q = trim (b_toLowerCase b qry)
           in if q = [] \<or> length q < 2 then (Inr \<lparr>items = [], total = 0, query = []\<rparr>, c')
              else
                (case guidanceDoc c' of
                   None \<Rightarrow> (Inl TypeError, c')
                 | Some doc \<Rightarrow>
                     let results = b_sort b (compareResults b)
                                     (List.map_filter (searchOne b q source) (map snd doc))
                     in (Inr \<lparr>items = take 50 results, total = length results, query = qry\<rparr>, c'))))"

section \<open>A concrete platform for the examples\<close>

text \<open>
  A platform on which the definitions can be run: the digest pads its input with
  zeros, lower-casing is the one of ASCII, no date parses, and the network answers
  with the function \<open>r\<close>.
\<close>

definition demoEnv :: "(nat \<Rightarrow> jstring \<Rightarrow> jstring option) \<Rightarrow> env" where
  "demoEnv r =
     \<lparr>sha256hex = (\<lambda>s. s @ lit ''0000000000000000000000000000000000000000000000000000000000000000''),
      toLowerCase = map lowerASCII,
      toISOString = (\<lambda>t. lit ''2025-01-01T'' @ showNat (nat t)),
      parseDate = (\<lambda>s. None),
      respond = r,
      clock = (\<lambda>n. 1700000000000 + n)\<rparr>"

definition emptyConfig :: RunConfig where
  "emptyConfig =
     \<lparr>sources = Map.empty,
      lastRunStats = \<lparr>rssPoller = None, rssPollerResults = None, htmlPoller = None\<rparr>,
      unreadChanges = Some 0\<rparr>"

definition emptyRun :: run where
  "emptyRun =
     \<lparr>seen = Map.empty, guidance = Map.empty, changes = Map.empty, pageHashes = Map.empty,
      config = emptyConfig, requests = [], clockReads = 0\<rparr>"

text \<open>A browser for the examples; its sort is a stable insertion sort.\<close>

fun insertBy :: "('a \<Rightarrow> 'a \<Rightarrow> int) \<Rightarrow> 'a \<Rightarrow> 'a list \<Rightarrow> 'a list" where
  "insertBy cmp x [] = [x]"
| "insertBy cmp x (y # ys) = (if cmp x y < 0 then x # y # ys else y # insertBy cmp x ys)"

definition insertionSort :: "('a \<Rightarrow> 'a \<Rightarrow> int) \<Rightarrow> 'a list \<Rightarrow> 'a list" where
  "insertionSort cmp xs = foldl (\<lambda>acc x. insertBy cmp x acc) [] xs"

definition demoBrowser :: "(jstring \<times> StoredArticle) list response \<Rightarrow> browser" where
  "demoBrowser g =
     \<lparr>b_toLowerCase = map lowerASCII, b_parseDate = (\<lambda>s. None), b_sort = insertionSort,
      b_now = 1700000000000, b_guidanceJson = g, b_changesJson = Body [],
      b_configJson = Body None\<rparr>"

definition emptyCache :: cache where
  "emptyCache = \<lparr>guidanceDoc = None, changesDoc = None, configDoc = None, lastFetch = 0\<rparr>"

section \<open>Notions used in the statements\<close>

definition plainCU :: "codeunit \<Rightarrow> bool" where
  "plainCU c \<longleftrightarrow> c \<noteq> 60 \<and> c \<noteq> 38 \<and> \<not> isSpaceCU c"

definition plainStr :: "jstring \<Rightarrow> bool" where
  "plainStr s \<longleftrightarrow> (\<forall>c \<in> set s. plainCU c)"

definition neverAt :: "bool \<Rightarrow> rx \<Rightarrow> bool" where
  "neverAt ic r \<longleftrightarrow> (\<forall>p t. (t = [] \<or> plainCU (hd t)) \<longrightarrow> execAt ic r p t = None)"

definition demoPage :: jstring where
  "demoPage = lit ''Chronic-kidney-disease:updated-monitoring-guidance-for-primary-care''"

definition storageKeyOf :: "env \<Rightarrow> jstring \<Rightarrow> jstring" where
  "storageKeyOf e url = lit ''content:'' @ hashString e url"

definition changeKeyOf :: "env \<Rightarrow> jstring \<Rightarrow> run \<Rightarrow> jstring" where
  "changeKeyOf e url s =
     lit ''change:'' @ showNat (clock e (Suc (clockReads s))) @ lit '':'' @ hashString e url"

definition storedHash :: "env \<Rightarrow> jstring \<Rightarrow> jstring \<Rightarrow> run \<Rightarrow> bool" where
  "storedHash e url h s \<longleftrightarrow>
     map_option a_contentHash (guidance s (storageKeyOf e url)) = Some h"

definition chaptersThen ::
  "env \<Rightarrow> jstring \<Rightarrow> jstring \<Rightarrow> metadata \<Rightarrow> jstring \<Rightarrow> nat \<Rightarrow> nat \<Rightarrow> run \<Rightarrow> run" where
  "chaptersThen e html source md url d m s =
     (if source = lit ''nice'' \<and> d < m \<and> snd (extractContent html source) \<noteq> []
      then crawlChapters e (orElse (md_title md) (extractTitle html)) url
             (snd (extractContent html source)) (d + 1) m s
      else s)"


definition demoUrl :: jstring where
  "demoUrl = lit ''https://x.org/ckd''"


definition demoArticle :: "jstring \<Rightarrow> StoredArticle" where
  "demoArticle h =
     \<lparr>a_id = lit ''content:https://x.org/ck'', a_url = demoUrl, a_title = lit ''CKD'',
      a_source = lit ''nhs'', a_type = lit ''article'', a_publishedDate = lit ''2024-12-01'',
      a_fetchedDate = lit ''2024-12-02T00:00:00.000Z'', a_contentHash = h,
      a_content = lit ''old'', a_parentUrl = None,
      a_metadata = \<lparr>wordCount = 1, estimatedReadTime = 1, description = lit ''old''\<rparr>\<rparr>"


definition fluItem :: jstring where
  "fluItem = lit ''<title>Flu update</title><link>https://x.org/flu</link>''"

definition shortPage :: jstring where
  "shortPage = lit ''Redirecting...''"

definition noWeb :: "nat \<Rightarrow> jstring \<Rightarrow> jstring option" where
  "noWeb n u = None"

definition shortWeb :: "nat \<Rightarrow> jstring \<Rightarrow> jstring option" where
  "shortWeb n u = Some shortPage"

definition noMeta :: metadata where
  "noMeta = \<lparr>md_title = None, md_description = None, md_publishedDate = None\<rparr>"

definition demoHash :: jstring where
  "demoHash = lit ''Chronic-kidney-d''"

definition oldHash :: jstring where
  "oldHash = lit ''0123456789abcdef''"

definition wfEntry :: "env \<Rightarrow> jstring \<Rightarrow> StoredArticle \<Rightarrow> bool" where
  "wfEntry e k a \<longleftrightarrow>
     a_id a = k \<and> k = lit ''content:'' @ hashString e (a_url a) \<and>
     a_contentHash a = hashString e (a_content a) \<and> 1 \<le> estimatedReadTime (a_metadata a)"

definition stepClosed :: "env \<Rightarrow> (run \<Rightarrow> run \<Rightarrow> bool) \<Rightarrow> bool" where
  "stepClosed e R \<longleftrightarrow>
     (\<forall>s. R s s) \<and> (\<forall>s t u. R s t \<longrightarrow> R t u \<longrightarrow> R s u) \<and>
     (\<forall>s r. R s (s\<lparr>requests := r\<rparr>)) \<and> (\<forall>s n. R s (s\<lparr>clockReads := n\<rparr>)) \<and>
     (\<forall>s k v. seen s k = None \<longrightarrow> R s (s\<lparr>seen := (seen s)(k \<mapsto> v)\<rparr>)) \<and>
     (\<forall>s k a. wfEntry e k a \<longrightarrow> R s (s\<lparr>guidance := (guidance s)(k \<mapsto> a)\<rparr>)) \<and>
     (\<forall>s c. R s (s\<lparr>changes := c\<rparr>)) \<and> (\<forall>s c. R s (s\<lparr>config := c\<rparr>)) \<and>
     (\<forall>s p. R s (s\<lparr>pageHashes := p\<rparr>))"

definition seenKept :: "run \<Rightarrow> run \<Rightarrow> bool" where
  "seenKept s s' \<longleftrightarrow> (\<forall>k v. seen s k = Some v \<longrightarrow> seen s' k = Some v)"

definition writesWellFormed :: "env \<Rightarrow> run \<Rightarrow> run \<Rightarrow> bool" where
  "writesWellFormed e s s' \<longleftrightarrow>
     (\<forall>k a. guidance s' k = Some a \<longrightarrow> guidance s k = Some a \<or> wfEntry e k a)"

definition demoListing :: jstring where
  "demoListing = lit ''<a href=\"/news/12/flu_update\">Flu update</a>''"

definition demoMatch :: rmatch where
  "demoMatch = \<lparr>m_index = 0, m_text = demoListing,
      m_groups = [(4, lit ''Flu update''), (1, lit ''/news/12/flu_update''), (3, lit ''flu_update''),
                  (2, lit ''12'')], m_after = []\<rparr>"

definition ckdDoc :: "(jstring \<times> StoredArticle) list" where
  "ckdDoc = [(lit ''content:https://x.org/ck'', demoArticle oldHash)]"

definition ckdItem :: searchItem where
  "ckdItem =
     \<lparr>r_id = lit ''content:https://x.org/ck'', r_url = demoUrl, r_title = lit ''CKD'',
      r_source = lit ''nhs'', r_publishedDate = lit ''2024-12-01'',
      r_fetchedDate = lit ''2024-12-02T00:00:00.000Z'', r_excerpt = lit ''old'', r_wordCount = 1,
      r_matchType = title_match\<rparr>"



text \<open>A NICE page with one chapter link, on a web that serves the chapter with other content.\<close>

definition niceUrl :: jstring where
  "niceUrl = lit ''https://www.nice.org.uk/guidance/ng1''"

definition chapterUrl :: jstring where
  "chapterUrl = lit ''https://www.nice.org.uk/guidance/ng1/chapter/a''"

definition nicePage :: jstring where
  "nicePage = lit ''Type-2-diabetes-in-adults:blood-glucose-management<a href=\"/guidance/ng1/chapter/a\">Intro</a>''"

definition niceContent :: jstring where
  "niceContent = lit ''Type-2-diabetes-in-adults:blood-glucose-management Intro''"

definition niceWeb :: "nat \<Rightarrow> jstring \<Rightarrow> jstring option" where
  "niceWeb n u = (if u = chapterUrl then Some demoPage else Some nicePage)"

definition niceMeta :: metadata where
  "niceMeta = \<lparr>md_title = Some (lit ''Type 2 diabetes''), md_description = None, md_publishedDate = None\<rparr>"

definition niceMatch :: rmatch where
  "niceMatch =
     \<lparr>m_index = 50, m_text = lit ''<a href=\"/guidance/ng1/chapter/a\">Intro</a>'',
      m_groups = [(2, lit ''Intro''), (1, lit ''/guidance/ng1/chapter/a'')], m_after = []\<rparr>"

definition niceOnce :: run where
  "niceOnce = crawlAndStore (demoEnv niceWeb) niceUrl (lit ''nice'') (lit ''guidance'') niceMeta 0 1 None emptyRun"

definition niceTwice :: run where
  "niceTwice = crawlAndStore (demoEnv niceWeb) niceUrl (lit ''nice'') (lit ''guidance'') niceMeta 0 1 None niceOnce"

section \<open>The data client: search\<close>

lemma loadData_demo:
  "loadData (demoBrowser (Body g)) False emptyCache =
     (None, \<lparr>guidanceDoc = Some g, changesDoc = Some [], configDoc = Some None,
             lastFetch = 1700000000000\<rparr>)"
  "loadData (demoBrowser FetchFailed) False emptyCache = (Some LoadFailed, emptyCache)"
  by (simp_all add: loadData_def demoBrowser_def emptyCache_def readBody_def)

lemma demo_queries:
  "trim (b_toLowerCase (demoBrowser g) (lit '' A '')) = lit ''a''"
  "trim (b_toLowerCase (demoBrowser g) (lit ''a'')) = lit ''a''"
  "trim (b_toLowerCase (demoBrowser g) (lit ''CKD'')) = lit ''ckd''"
  by (simp_all add: demoBrowser_def lit_def cu_def trim_def lowerASCII_def isSpaceCU_def)

lemma ckd_found: "searchOne (demoBrowser g) (lit ''ckd'') (lit ''all'') (demoArticle oldHash) = Some ckdItem"
  by (simp add: searchOne_def demoArticle_def ckdItem_def demoBrowser_def includesStr_def
        lit_def cu_def lowerASCII_def)

lemma ckd_search:
  "fst (search (demoBrowser (Body ckdDoc)) emptyCache (lit ''CKD'') (lit ''all'')) =
     Inr \<lparr>items = [ckdItem], total = 1, query = lit ''CKD''\<rparr>"
proof -
  have "b_sort (demoBrowser (Body ckdDoc)) cmp [ckdItem] = [ckdItem]" for cmp
    by (simp add: demoBrowser_def insertionSort_def)
  moreover have "lit ''ckd'' \<noteq> []" "length (lit ''ckd'') = 3"
    by (simp_all add: lit_def)
  ultimately show ?thesis
    by (simp add: search_def loadData_demo demo_queries ckd_found ckdDoc_def
          List.map_filter_simps)
qed

text \<open>
  Claim C10 as stated fails when the load of the documents fails: \<open>Api.search\<close> awaits
  \<open>loadData()\<close> before it tests the query, so with a rejected request the one-character
  query \<open>a\<close> gives the rejection and not the empty result.
\<close>

theorem short_query_rejected_when_load_fails:
  "length (trim (b_toLowerCase (demoBrowser FetchFailed) (lit ''a''))) < 2 \<and>
   fst (search (demoBrowser FetchFailed) emptyCache (lit ''a'') (lit ''all'')) = Inl LoadFailed"
  by (simp add: search_def loadData_demo demo_queries) (simp add: lit_def)

text \<open>
  Claim C10, as amended. \<open>Api.search\<close> first loads the documents. When the load is
  rejected the search is rejected with it, whatever the query. When the load succeeds, a
  query whose lower-cased and trimmed form has fewer than two code units (the empty one
  included) gives the empty result with total 0 and the empty query string, whatever
  the loaded guidance contains. Every result has as many items as the smaller of 50 and
  its total.
\<close>

theorem search_short_query_and_cap:
  "(fst (loadData b False c) = None \<and> length (trim (b_toLowerCase b qry)) < 2 \<longrightarrow>
      fst (search b c qry source) = Inr \<lparr>items = [], total = 0, query = []\<rparr>) \<and>
   (fst (loadData b False c) = Some err \<longrightarrow> fst (search b c qry source) = Inl err) \<and>
   (fst (search b c qry source) = Inr r \<longrightarrow> length (items r) = min 50 (total r))"
proof (intro conjI impI)
  assume "fst (loadData b False c) = None \<and> length (trim (b_toLowerCase b qry)) < 2"
  then show "fst (search b c qry source) = Inr \<lparr>items = [], total = 0, query = []\<rparr>"
    by (cases "loadData b False c") (auto simp: search_def Let_def)
next
  assume "fst (loadData b False c) = Some err"
  then show "fst (search b c qry source) = Inl err"
    by (cases "loadData b False c") (auto simp: search_def)
next
  assume "fst (search b c qry source) = Inr r"
  then show "length (items r) = min 50 (total r)"
    by (cases "loadData b False c")
       (auto simp: search_def Let_def split: option.splits if_splits)
qed

theorem search_short_query_and_cap_witness:
  "fst (loadData (demoBrowser (Body ckdDoc)) False emptyCache) = None \<and>
   length (trim (b_toLowerCase (demoBrowser (Body ckdDoc)) (lit '' A ''))) < 2 \<and>
   fst (search (demoBrowser (Body ckdDoc)) emptyCache (lit '' A '') (lit ''all'')) =
     Inr \<lparr>items = [], total = 0, query = []\<rparr> \<and>
   fst (loadData (demoBrowser FetchFailed) False emptyCache) = Some LoadFailed \<and>
   fst (search (demoBrowser FetchFailed) emptyCache (lit ''CKD'') (lit ''all'')) = Inl LoadFailed \<and>
   fst (search (demoBrowser (Body ckdDoc)) emptyCache (lit ''CKD'') (lit ''all'')) =
     Inr \<lparr>items = [ckdItem], total = 1, query = lit ''CKD''\<rparr> \<and>
   length (items \<lparr>items = [ckdItem], total = 1, query = lit ''CKD''\<rparr>) =
     min 50 (total \<lparr>items = [ckdItem], total = 1, query = lit ''CKD''\<rparr>)"
  using search_short_query_and_cap [where b = "demoBrowser (Body ckdDoc)" and c = emptyCache
          and qry = "lit '' A ''" and source = "lit ''all''"]
    search_short_query_and_cap [where b = "demoBrowser FetchFailed" and c = emptyCache
          and qry = "lit ''CKD''" and source = "lit ''all''" and err = LoadFailed]
    search_short_query_and_cap [where b = "demoBrowser (Body ckdDoc)" and c = emptyCache
          and qry = "lit ''CKD''" and source = "lit ''all''"
          and r = "\<lparr>items = [ckdItem], total = 1, query = lit ''CKD''\<rparr>"]
    ckd_search
  by (simp add: loadData_demo demo_queries) (simp add: lit_def)

section \<open>The engine\<close>

lemma splitLoop_nonempty: "splitLoop ic r p s cur \<noteq> []"
proof (induction ic r p s cur rule: splitLoop.induct)
  case (1 ic r p s cur)
  show ?case
    using 1 by (subst splitLoop.simps) (auto split: list.splits option.splits)
qed

lemma execAt_plus_empty: "execAt False (plus spaceRx) None [] = None"
  by (simp add: execAt_def plus_def spaceRx_def)

lemma countWords_pos: "0 < countWords content"
  by (simp add: countWords_def rxSplit_def splitLoop_nonempty execAt_plus_empty)

lemma readTime_pos: "0 < n \<Longrightarrow> 0 < readTime n"
  by (simp add: readTime_def)

subsection \<open>Positions at which a pattern cannot match\<close>

lemma replace_skip:
  assumes "\<And>i p. i < length a \<Longrightarrow> execAt ic r p (drop i a @ b) = None"
  shows "rxReplaceWith ic r f p (a @ b) =
           a @ rxReplaceWith ic r f (if a = [] then p else Some (last a)) b"
  using assms
proof (induction a arbitrary: p)
  case Nil
  then show ?case by simp
next
  case (Cons x xs)
  have none: "execAt ic r p (x # xs @ b) = None"
    using Cons.prems [of 0 p] by simp
  have rest: "\<And>i q. i < length xs \<Longrightarrow> execAt ic r q (drop i xs @ b) = None"
    using Cons.prems [of "Suc _"] by simp
  have "rxReplaceWith ic r f p ((x # xs) @ b) = x # rxReplaceWith ic r f (Some x) (xs @ b)"
    using none by (subst rxReplaceWith.simps) simp
  also have "\<dots> = x # xs @ rxReplaceWith ic r f (if xs = [] then Some x else Some (last xs)) b"
    using Cons.IH [OF rest] by simp
  finally show ?case by simp
qed

lemma find_skip:
  assumes "\<And>i p. i < length a \<Longrightarrow> execAt ic r p (drop i a @ b) = None"
  shows "rxFindFrom ic r p (a @ b) n =
           rxFindFrom ic r (if a = [] then p else Some (last a)) b (n + length a)"
  using assms
proof (induction a arbitrary: p n)
  case Nil
  then show ?case by simp
next
  case (Cons x xs)
  have none: "execAt ic r p (x # xs @ b) = None"
    using Cons.prems [of 0 p] by simp
  have rest: "\<And>i q. i < length xs \<Longrightarrow> execAt ic r q (drop i xs @ b) = None"
    using Cons.prems [of "Suc _"] by simp
  show ?case
    using none Cons.IH [OF rest, of "Some x" "Suc n"] by simp
qed

lemma matchAll_skip:
  assumes "\<And>i p. i < length a \<Longrightarrow> execAt ic r p (drop i a @ b) = None"
  shows "rxMatchAllFrom ic r p (a @ b) n =
           rxMatchAllFrom ic r (if a = [] then p else Some (last a)) b (n + length a)"
  using assms
proof (induction a arbitrary: p n)
  case Nil
  then show ?case by simp
next
  case (Cons x xs)
  have none: "execAt ic r p (x # xs @ b) = None"
    using Cons.prems [of 0 p] by simp
  have rest: "\<And>i q. i < length xs \<Longrightarrow> execAt ic r q (drop i xs @ b) = None"
    using Cons.prems [of "Suc _"] by simp
  have "rxMatchAllFrom ic r p ((x # xs) @ b) n = rxMatchAllFrom ic r (Some x) (xs @ b) (Suc n)"
    using none by (subst rxMatchAllFrom.simps) simp
  then show ?case
    using Cons.IH [OF rest, of "Some x" "Suc n"] by simp
qed

lemma neverAt_drop:
  assumes "neverAt ic r" "plainStr s" "i < length s"
  shows "execAt ic r p (drop i s @ []) = None"
proof -
  have "drop i s \<noteq> []" using assms(3) by simp
  moreover have "hd (drop i s) = s ! i" using assms(3) by (simp add: hd_drop_conv_nth)
  ultimately show ?thesis
    using assms by (simp add: neverAt_def plainStr_def)
qed

lemma neverAt_replace:
  assumes "neverAt ic r" "plainStr s"
  shows "rxReplaceWith ic r f p s = s"
proof -
  have "rxReplaceWith ic r f p (s @ []) = s @ rxReplaceWith ic r f (if s = [] then p else Some (last s)) []"
    by (rule replace_skip) (rule neverAt_drop [OF assms])
  moreover have "rxReplaceWith ic r f q [] = []" for q
    using assms(1) by (subst rxReplaceWith.simps) (simp add: neverAt_def)
  ultimately show ?thesis by simp
qed

lemma neverAt_replaceAll: "neverAt ic r \<Longrightarrow> plainStr s \<Longrightarrow> rxReplaceAll ic r rep s = s"
  by (simp add: rxReplaceAll_def neverAt_replace)

lemma neverAt_find:
  assumes "neverAt ic r" "plainStr s"
  shows "rxFind ic r s = None"
proof -
  have "rxFindFrom ic r None (s @ []) 0 = rxFindFrom ic r (if s = [] then None else Some (last s)) [] (0 + length s)"
    by (rule find_skip) (rule neverAt_drop [OF assms])
  moreover have "rxFindFrom ic r q [] n = None" for q n
    using assms(1) by (simp add: neverAt_def)
  ultimately show ?thesis by (simp add: rxFind_def)
qed

lemma neverAt_matchAll:
  assumes "neverAt ic r" "plainStr s"
  shows "rxMatchAll ic r s = []"
proof -
  have "rxMatchAllFrom ic r None (s @ []) 0 = rxMatchAllFrom ic r (if s = [] then None else Some (last s)) [] (0 + length s)"
    by (rule matchAll_skip) (rule neverAt_drop [OF assms])
  moreover have "rxMatchAllFrom ic r q [] n = []" for q n
    using assms(1) by (subst rxMatchAllFrom.simps) (simp add: neverAt_def)
  ultimately show ?thesis by (simp add: rxMatchAll_def)
qed

lemma eqCU_plain:
  "plainCU x \<Longrightarrow> \<not> eqCU ic 60 x" "plainCU x \<Longrightarrow> \<not> eqCU ic 38 x"
  by (auto simp: plainCU_def eqCU_def upperASCII_def split: if_splits)

lemma neverAt_Lit:
  assumes "cu c = 60 \<or> cu c = 38"
  shows "neverAt ic (Cat (Lit (c # cs)) r)"
  unfolding neverAt_def
proof (intro allI impI)
  fix p t
  assume t: "t = [] \<or> plainCU (hd t)"
  have "\<not> litMatch ic (c # cs) t"
    using t assms by (cases t) (auto simp: eqCU_plain)
  then show "execAt ic (Cat (Lit (c # cs)) r) p t = None"
    by (simp add: execAt_def)
qed

lemma neverAt_Cls:
  assumes "\<And>x. plainCU x \<Longrightarrow> \<not> inClass ic neg its x"
  shows "neverAt ic (Cat (Cls neg its) r)"
  unfolding neverAt_def
proof (intro allI impI)
  fix p t
  assume t: "t = [] \<or> plainCU (hd t)"
  then show "execAt ic (Cat (Cls neg its) r) p t = None"
    using assms by (cases t) (auto simp: execAt_def)
qed

lemma neverAt_Lit_bare:
  assumes "cu c = 60 \<or> cu c = 38"
  shows "neverAt ic (Lit (c # cs))"
  unfolding neverAt_def
proof (intro allI impI)
  fix p t
  assume t: "t = [] \<or> plainCU (hd t)"
  have "\<not> litMatch ic (c # cs) t"
    using t assms by (cases t) (auto simp: eqCU_plain)
  then show "execAt ic (Lit (c # cs)) p t = None"
    by (simp add: execAt_def)
qed

lemma plain_not_blank: "plainCU x \<Longrightarrow> \<not> inClass ic False [Ch (CHR '' ''), Cu 9] x"
  by (auto simp: plainCU_def inClass_def eqCU_def cu_def isSpaceCU_def upperASCII_def split: if_splits)

lemma plain_not_nl: "plainCU x \<Longrightarrow> \<not> inClass ic False [Cu 10] x"
  by (auto simp: plainCU_def inClass_def eqCU_def isSpaceCU_def upperASCII_def split: if_splits)

lemma plain_not_space: "plainCU x \<Longrightarrow> \<not> inClass ic False [SpaceC] x"
  by (auto simp: plainCU_def inClass_def)

lemma neverAt_patterns:
  "neverAt ic (blockRx tag)" "neverAt ic closingTagRx" "neverAt ic breakTagRx" "neverAt ic anyTagRx"
  "neverAt ic numericEntityRx" "neverAt ic blanksRx" "neverAt ic (seq [nl, blanksRx])"
  "neverAt ic (seq [nl, nl, nl, Star nl])" "neverAt ic (plus spaceRx)"
  "neverAt ic (elementRx tag)" "neverAt ic metaDateRx" "neverAt ic timeElRx"
  "neverAt ic (divClassRx w)" "neverAt ic divIdContentRx" "neverAt ic chapterRx"
  by (simp_all add: blockRx_def closingTagRx_def breakTagRx_def anyTagRx_def numericEntityRx_def
        blanksRx_def elementRx_def metaDateRx_def timeElRx_def divClassRx_def divIdContentRx_def
        chapterRx_def seq_def plus_def nl_def spaceRx_def neverAt_Lit neverAt_Cls cu_def
        plain_not_blank plain_not_nl plain_not_space)

lemma trim_plain: "plainStr s \<Longrightarrow> trim s = s"
proof -
  assume p: "plainStr s"
  have a: "dropWhile isSpaceCU s = s"
    using p by (cases s) (auto simp: plainStr_def plainCU_def)
  have b: "dropWhile isSpaceCU (rev s) = rev s"
    using p by (cases "rev s") (auto simp: plainStr_def plainCU_def dest: arg_cong [where f = set])
  show ?thesis by (simp add: trim_def a b)
qed

lemma removeBlocks_plain: "plainStr s \<Longrightarrow> removeBlocks s = s"
  by (simp add: removeBlocks_def blockTags_def neverAt_replaceAll neverAt_patterns)

lemma stripTags_plain: "plainStr s \<Longrightarrow> stripTags s = s"
  by (simp add: stripTags_def neverAt_replaceAll neverAt_patterns)

lemma decodeEntities_plain: "plainStr s \<Longrightarrow> decodeEntities s = s"
  by (simp add: decodeEntities_def entityTable_def neverAt_replaceAll neverAt_patterns
        neverAt_Lit_bare cu_def)

lemma normaliseSpace_plain: "plainStr s \<Longrightarrow> normaliseSpace s = s"
  by (simp add: normaliseSpace_def neverAt_replaceAll neverAt_patterns trim_plain)

lemma cleanHTML_plain: "plainStr s \<Longrightarrow> cleanHTML s = s"
  by (simp add: cleanHTML_def removeBlocks_plain stripTags_plain decodeEntities_plain
        normaliseSpace_plain)

lemma firstContainer_plain:
  "plainStr s \<Longrightarrow> \<forall>r \<in> set rs. neverAt True r \<Longrightarrow> firstContainer rs s = None"
  by (induction rs) (simp_all add: neverAt_find)

lemma extractContent_plain: "plainStr s \<Longrightarrow> extractContent s source = (s, [])"
  by (simp add: extractContent_def firstContainer_plain patternSets_def neverAt_patterns
        bodyOrDocument_def neverAt_find cleanHTML_plain neverAt_matchAll)

lemma extractARTPContent_plain: "plainStr s \<Longrightarrow> extractARTPContent s = s"
  by (simp add: extractARTPContent_def firstContainer_plain neverAt_patterns
        bodyOrDocument_def neverAt_find cleanHTML_plain)

lemma extractTitle_plain: "plainStr s \<Longrightarrow> extractTitle s = lit ''Untitled''"
  by (simp add: extractTitle_def neverAt_find neverAt_patterns)

lemma parsePublishedDate_plain: "plainStr s \<Longrightarrow> parsePublishedDate s = None"
  by (simp add: parsePublishedDate_def neverAt_find neverAt_patterns)

lemma demoPage_plain: "plainStr demoPage"
  by (simp add: demoPage_def plainStr_def plainCU_def lit_def cu_def isSpaceCU_def)

lemma demoPage_length: "length demoPage = 67"
  by (simp add: demoPage_def lit_def)

lemma persisted_requests [simp]: "persisted (s\<lparr>requests := r\<rparr>) = persisted s"
  by (simp add: persisted_def)

lemma persisted_clockReads [simp]: "persisted (s\<lparr>clockReads := n\<rparr>) = persisted s"
  by (simp add: persisted_def)

lemma storeArticle_None_iff:
  "storeArticle e url source type md parentUrl html title content s = None \<longleftrightarrow>
     (\<exists>a. guidance s (storageKeyOf e url) = Some a \<and> a_contentHash a = hashString e content)"
  by (auto simp: storeArticle_def storageKeyOf_def Let_def readClock_def split: option.splits)

lemma storeArticle_requests [simp]:
  "storeArticle e url source type md parentUrl html title content (s\<lparr>requests := r\<rparr>) =
     map_option (\<lambda>t. t\<lparr>requests := r\<rparr>) (storeArticle e url source type md parentUrl html title content s)"
  by (simp add: storeArticle_def Let_def readClock_def)

text \<open>What \<open>storeArticle\<close> writes when it does not return early.\<close>

lemma storeArticle_Some:
  assumes "storeArticle e url source type md parentUrl html title content s = Some s'"
  shows "seen s' = seen s" "pageHashes s' = pageHashes s" "requests s' = requests s"
    "clockReads s' = clockReads s + 2"
    "config s' = bumpUnread (config s)"
    "\<exists>a. guidance s' = (guidance s)(storageKeyOf e url \<mapsto> a) \<and> a_id a = storageKeyOf e url \<and>
         a_url a = url \<and> a_content a = content \<and> a_contentHash a = hashString e content \<and>
         estimatedReadTime (a_metadata a) = readTime (countWords content)"
    "\<exists>c. changes s' = (changes s)(changeKeyOf e url s \<mapsto> c) \<and>
         c_changeType c = (if guidance s (storageKeyOf e url) = None then new_guidance else content_update) \<and>
         c_previousHash c = (case guidance s (storageKeyOf e url) of None \<Rightarrow> None
                             | Some a \<Rightarrow> truthy (Some (a_contentHash a))) \<and>
         c_newHash c = hashString e content \<and> c_url c = url \<and> \<not> c_acknowledged c"
  using assms
  by (simp_all add: storeArticle_def storageKeyOf_def changeKeyOf_def Let_def readClock_def
        split: if_split_asm) auto

lemma crawlAndStore_unfold:
  "crawlAndStore e url source type md d m parent s =
     (case respond e (length (requests s)) url of
        None \<Rightarrow> s\<lparr>requests := requests s @ [url]\<rparr>
      | Some html \<Rightarrow>
          (let content = fst (extractContent html source);
               title = orElse (md_title md) (extractTitle html)
           in if length content < 50 then s\<lparr>requests := requests s @ [url]\<rparr>
              else
                (case storeArticle e url source type md parent html title content s of
                   None \<Rightarrow> s\<lparr>requests := requests s @ [url]\<rparr>
                 | Some s2 \<Rightarrow>
                     if source = lit ''nice'' \<and> d < m \<and> snd (extractContent html source) \<noteq> []
                     then crawlChapters e title url (snd (extractContent html source)) (d + 1) m
                            (s2\<lparr>requests := requests s @ [url]\<rparr>)
                     else s2\<lparr>requests := requests s @ [url]\<rparr>)))"
  by (subst crawlAndStore.simps)
     (auto simp: fetchPage_def Let_def split: option.splits)

lemma crawlAndStoreARTP_unfold:
  "crawlAndStoreARTP e url title date s =
     (case respond e (length (requests s)) url of
        None \<Rightarrow> s\<lparr>requests := requests s @ [url]\<rparr>
      | Some html \<Rightarrow>
          (if length (extractARTPContent html) < 50 then s\<lparr>requests := requests s @ [url]\<rparr>
           else
             (case storeArticle e url (lit ''artp'') (lit ''article'')
                     \<lparr>md_title = Some title, md_description = None, md_publishedDate = date\<rparr>
                     None html (orElse (Some title) (extractTitle html)) (extractARTPContent html) s of
                None \<Rightarrow> s\<lparr>requests := requests s @ [url]\<rparr>
              | Some s2 \<Rightarrow> s2\<lparr>requests := requests s @ [url]\<rparr>)))"
  by (auto simp: crawlAndStoreARTP_def fetchPage_def Let_def split: option.splits)

text \<open>
  Claim C6. When the request for the page fails (a network error or a response that is
  not 2xx), \<open>crawlAndStore\<close> and \<open>crawlAndStoreARTP\<close> return normally, having sent that
  one request, and the seen map, the guidance map, the changes map, the page-hash map
  and the configuration with its counter of unread changes are as before.
\<close>

theorem fetch_failure_is_contained:
  assumes "respond e (length (requests s)) url = None"
  shows "persisted (crawlAndStore e url source type md d m parent s) = persisted s \<and>
         requests (crawlAndStore e url source type md d m parent s) = requests s @ [url] \<and>
         persisted (crawlAndStoreARTP e url title date s) = persisted s \<and>
         requests (crawlAndStoreARTP e url title date s) = requests s @ [url]"
  using assms by (simp add: crawlAndStore_unfold crawlAndStoreARTP_unfold)

text \<open>
  Claim C3, as amended. In \<open>crawlAndStore\<close> and \<open>crawlAndStoreARTP\<close>, which every
  pipeline that requests the page of an item goes through, extracted content that is
  empty or shorter than 50 code units leaves every persisted document as it was: no
  stored article is created or modified and no change event is appended. The
  \<open>rssOnly\<close> branch of the feed pipeline has no such gate.
\<close>

theorem short_content_is_not_stored:
  assumes "respond e (length (requests s)) url = Some html"
  shows "(length (fst (extractContent html source)) < 50 \<longrightarrow>
            persisted (crawlAndStore e url source type md d m parent s) = persisted s) \<and>
         (length (extractARTPContent html) < 50 \<longrightarrow>
            persisted (crawlAndStoreARTP e url title date s) = persisted s)"
  using assms by (simp add: crawlAndStore_unfold crawlAndStoreARTP_unfold Let_def)










lemma storedHash_requests [simp]: "storedHash e root h (s\<lparr>requests := r\<rparr>) = storedHash e root h s"
  by (simp add: storedHash_def)




lemma crawl_stores:
  assumes "respond e (length (requests s)) url = Some html"
    and "50 \<le> length (fst (extractContent html source))"
    and "storeArticle e url source type md parent html (orElse (md_title md) (extractTitle html))
           (fst (extractContent html source)) s = Some s2"
  shows "crawlAndStore e url source type md d m parent s =
           chaptersThen e html source md url d m (s2\<lparr>requests := requests s @ [url]\<rparr>)"
  using assms by (simp add: crawlAndStore_unfold chaptersThen_def Let_def)


lemma store_happens:
  assumes "\<forall>a. guidance s (storageKeyOf e url) = Some a \<longrightarrow> a_contentHash a \<noteq> hashString e content"
  shows "\<exists>s2. storeArticle e url source type md parent html title content s = Some s2"
proof (cases "storeArticle e url source type md parent html title content s")
  case None
  then show ?thesis using assms by (auto simp: storeArticle_None_iff)
next
  case (Some s2)
  then show ?thesis by blast
qed


lemmas rx_defs = seq_def plus_def opt_def anyCU_def dot_def notCh_def dq_def notDq_def spaceRx_def
  digitRx_def nl_def anyTagRx_def cdataRx_def plainTagRx_def

lemmas str_defs = lit_def cu_def trim_def isSpaceCU_def isDigitCU_def isWordCU_def upperASCII_def
  lowerASCII_def eqCU_def inClass_def advance_def wordAt_def nextCU_def substring_def

lemmas run_defs = execAt_def mkMatch_def group_def firstGroup_def orMatch_def rxFind_def
  rxReplaceAll_def rxReplaceWith.simps rxSplit_def splitLoop.simps

lemma fluItem_parsed:
  "parseItem fluItem =
     \<lparr>f_title = lit ''Flu update'', f_link = lit ''https://x.org/flu'', f_pubDate = None,
      f_description = []\<rparr>"
  by (simp add: parseItem_def fluItem_def truthy_def rx_defs str_defs run_defs)

lemma shortPage_plain: "plainStr shortPage"
  by (simp add: shortPage_def plainStr_def plainCU_def lit_def cu_def isSpaceCU_def)

lemma shortPage_length: "length shortPage = 14"
  by (simp add: shortPage_def lit_def)


lemma demo_hash: "hashString (demoEnv r) demoPage = lit ''Chronic-kidney-d''"
  by (simp add: hashString_def demoEnv_def demoPage_def lit_def)

theorem fetch_failure_is_contained_witness:
  "respond (demoEnv noWeb) (length (requests emptyRun)) demoUrl = None \<and>
   persisted (crawlAndStore (demoEnv noWeb) demoUrl (lit ''nhs'') (lit ''article'') noMeta 0 0 None emptyRun)
     = persisted emptyRun \<and>
   persisted (crawlAndStoreARTP (demoEnv noWeb) demoUrl (lit ''CKD'') None emptyRun) = persisted emptyRun"
  using fetch_failure_is_contained [of "demoEnv noWeb" emptyRun demoUrl "lit ''nhs''" "lit ''article''"
          noMeta 0 0 None "lit ''CKD''" None]
  by (simp add: demoEnv_def noWeb_def)

theorem short_content_is_not_stored_witness:
  "respond (demoEnv shortWeb) (length (requests emptyRun)) demoUrl = Some shortPage \<and>
   length (fst (extractContent shortPage (lit ''nhs''))) < 50 \<and>
   length (extractARTPContent shortPage) < 50 \<and>
   persisted (crawlAndStore (demoEnv shortWeb) demoUrl (lit ''nhs'') (lit ''article'') noMeta 0 0 None emptyRun)
     = persisted emptyRun \<and>
   persisted (crawlAndStoreARTP (demoEnv shortWeb) demoUrl (lit ''CKD'') None emptyRun) = persisted emptyRun"
  using short_content_is_not_stored [of "demoEnv shortWeb" emptyRun demoUrl shortPage "lit ''nhs''"
          "lit ''article''" noMeta 0 0 None "lit ''CKD''" None]
  by (simp add: demoEnv_def shortWeb_def extractContent_plain extractARTPContent_plain
        shortPage_plain shortPage_length)

text \<open>
  Claim C3 as stated fails in the \<open>rssOnly\<close> branch: a feed item with the title
  ``Flu update'' and no description is stored with its ten code units of content, and
  a change event is appended for it.
\<close>

theorem rss_only_stores_short_content:
  "(case rssItem (demoEnv noWeb) (lit ''ncl'') [] [] True fluItem (0, emptyRun) of
      Inl err \<Rightarrow> None
    | Inr acc \<Rightarrow> map_option a_content (guidance (snd acc) (lit ''content:https://x.org/fl'')))
     = Some (lit ''Flu update'') \<and>
   (case rssItem (demoEnv noWeb) (lit ''ncl'') [] [] True fluItem (0, emptyRun) of
      Inl err \<Rightarrow> None
    | Inr acc \<Rightarrow> map_option c_changeType (changes (snd acc) (lit ''change:1700000000002:https://x.org/fl'')))
     = Some new_guidance \<and>
   length (lit ''Flu update'') < 50"
  by (simp add: rssItem_def rssStore_def fluItem_parsed someKeyword_def hashString_def demoEnv_def
        readClock_def emptyRun_def Let_def lit_def cu_def showNat.simps)


lemma demo_content:
  "fst (extractContent demoPage source) = demoPage" "extractARTPContent demoPage = demoPage"
  by (simp_all add: extractContent_plain extractARTPContent_plain demoPage_plain)



lemma lit_append: "lit a @ lit b = lit (a @ b)" "lit a @ lit b @ c = lit (a @ b) @ c"
  by (simp_all add: lit_def)

lemma lit_nonempty: "lit (c # cs) \<noteq> []"
  by (simp add: lit_def)

lemma nice_nocontainer: "firstContainer (patternSets (lit ''nice'')) nicePage = None"
  by (simp add: patternSets_def nicePage_def divClassRx_def divIdContentRx_def elementRx_def divTailRx_def
     rx_defs str_defs run_defs)

lemma nice_nobody: "rxFind True (elementRx ''body'') nicePage = None"
  by (simp add: nicePage_def elementRx_def rx_defs str_defs run_defs)

lemma nice_blocks: "removeBlocks nicePage = nicePage"
  by (simp add: removeBlocks_def blockTags_def blockRx_def nicePage_def rx_defs str_defs run_defs)

lemma nice_stripped:
  "stripTags nicePage = lit ''Type-2-diabetes-in-adults:blood-glucose-management Intro ''"
  by (simp add: stripTags_def closingTagRx_def breakTagRx_def nicePage_def rx_defs str_defs run_defs)

lemma nice_decoded:
  "decodeEntities (lit ''Type-2-diabetes-in-adults:blood-glucose-management Intro '') =
     lit ''Type-2-diabetes-in-adults:blood-glucose-management Intro ''"
  by (simp add: decodeEntities_def entityTable_def numericEntityRx_def rx_defs str_defs run_defs)

lemma nice_spaces:
  "normaliseSpace (lit ''Type-2-diabetes-in-adults:blood-glucose-management Intro '') = niceContent"
  by (simp add: normaliseSpace_def blanksRx_def niceContent_def rx_defs str_defs run_defs)

lemma nice_clean: "cleanHTML nicePage = niceContent"
  by (simp add: cleanHTML_def nice_blocks nice_stripped nice_decoded nice_spaces)

lemma nice_matches: "rxMatchAll True chapterRx nicePage = [niceMatch]"
  by (simp add: nicePage_def niceMatch_def chapterRx_def
        rxMatchAll_def rxMatchAllFrom.simps Let_def rx_defs str_defs run_defs)

lemma niceMatch_groups:
  "group 1 niceMatch = lit ''/guidance/ng1/chapter/a''"
  "group (Suc 0) niceMatch = lit ''/guidance/ng1/chapter/a''" "group 2 niceMatch = lit ''Intro''"
  by (simp_all add: group_def niceMatch_def)

lemma intro_plain: "plainText (lit ''Intro'') = lit ''Intro''" "lit ''Intro'' \<noteq> []"
  by (simp_all add: plainText_def rx_defs str_defs run_defs)

lemma nice_content_ne: "niceContent \<noteq> []"
  by (simp add: niceContent_def lit_def)

lemma nice_extract:
  "extractContent nicePage (lit ''nice'') = (niceContent, [\<lparr>l_url = chapterUrl, l_title = lit ''Intro''\<rparr>])"
  by (simp add: extractContent_def nice_nocontainer bodyOrDocument_def nice_nobody nice_clean
        nice_matches niceMatch_groups intro_plain chapterUrl_def lit_append nice_content_ne)

lemma store_effect:
  assumes "storeArticle e url src ty md p html title content s = Some s2"
  shows "config s2 = bumpUnread (config s)" "clockReads s2 = clockReads s + 2"
    "dom (changes s2) = insert (changeKeyOf e url s) (dom (changes s))"
    "storedHash e url (hashString e content) s2" "requests s2 = requests s"
  using storeArticle_Some [OF assms] by (auto simp: storedHash_def)

lemma nice_hashes:
  "hashString (demoEnv r) niceUrl = lit ''https://www.nice''"
  "hashString (demoEnv r) chapterUrl = lit ''https://www.nice''"
  "hashString (demoEnv r) niceContent = lit ''Type-2-diabetes-''"
  by (simp_all add: hashString_def demoEnv_def niceUrl_def chapterUrl_def niceContent_def lit_def)

lemma nice_lengths: "length niceContent = 56" "chapterUrl \<noteq> niceUrl"
  "niceUrl \<noteq> chapterUrl"
  "lit ''Type-2-diabetes-'' \<noteq> demoHash" "lit ''Type-2-diabetes-'' \<noteq> lit ''Chronic-kidney-d''"
  by (simp_all add: niceContent_def chapterUrl_def niceUrl_def demoHash_def lit_def cu_def)

lemma nice_respond:
  "respond (demoEnv niceWeb) n niceUrl = Some nicePage"
  "respond (demoEnv niceWeb) n chapterUrl = Some demoPage"
  by (simp_all add: demoEnv_def niceWeb_def nice_lengths)


lemma nice_run:
  assumes diff: "\<not> storedHash (demoEnv niceWeb) niceUrl (lit ''Type-2-diabetes-'') s"
  shows "requests (crawlAndStore (demoEnv niceWeb) niceUrl (lit ''nice'') ty md 0 1 par s) =
           requests s @ [niceUrl, chapterUrl]"
    and "config (crawlAndStore (demoEnv niceWeb) niceUrl (lit ''nice'') ty md 0 1 par s) =
           bumpUnread (bumpUnread (config s))"
    and "clockReads (crawlAndStore (demoEnv niceWeb) niceUrl (lit ''nice'') ty md 0 1 par s) =
           clockReads s + 4"
    and "dom (changes (crawlAndStore (demoEnv niceWeb) niceUrl (lit ''nice'') ty md 0 1 par s)) =
           insert (changeKeyOf (demoEnv niceWeb) chapterUrl (s\<lparr>clockReads := clockReads s + 2\<rparr>))
             (insert (changeKeyOf (demoEnv niceWeb) niceUrl s) (dom (changes s)))"
    and "storedHash (demoEnv niceWeb) niceUrl demoHash
           (crawlAndStore (demoEnv niceWeb) niceUrl (lit ''nice'') ty md 0 1 par s)"
proof -
  let ?E = "demoEnv niceWeb"
  let ?title = "orElse (md_title md) (extractTitle nicePage)"
  let ?md = "\<lparr>md_title = Some (?title @ lit '' '' @ [mdash] @ lit '' '' @ lit ''Intro''),
           md_description = None, md_publishedDate = None\<rparr>"
  have c1: "fst (extractContent nicePage (lit ''nice'')) = niceContent" by (simp add: nice_extract)
  have "\<forall>a. guidance s (storageKeyOf ?E niceUrl) = Some a \<longrightarrow> a_contentHash a \<noteq> hashString ?E niceContent"
    using diff by (auto simp: storedHash_def nice_hashes)
  then obtain a1 where a1: "storeArticle ?E niceUrl (lit ''nice'') ty md par nicePage ?title niceContent s = Some a1"
    using store_happens by blast
  let ?a1 = "a1\<lparr>requests := requests s @ [niceUrl]\<rparr>"
  have "crawlAndStore ?E niceUrl (lit ''nice'') ty md 0 1 par s =
          chaptersThen ?E nicePage (lit ''nice'') md niceUrl 0 1 ?a1"
    by (rule crawl_stores [OF nice_respond(1)]) (simp_all add: c1 nice_lengths a1)
  then have step1: "crawlAndStore ?E niceUrl (lit ''nice'') ty md 0 1 par s =
          crawlAndStore ?E chapterUrl (lit ''nice'') (lit ''chapter'') ?md 1 1 (Some niceUrl) ?a1"
    by (simp add: chaptersThen_def nice_extract)
  have c2: "fst (extractContent demoPage (lit ''nice'')) = demoPage" by (simp add: demo_content)
  have k: "storageKeyOf ?E chapterUrl = storageKeyOf ?E niceUrl"
    by (simp add: storageKeyOf_def nice_hashes)
  have "storedHash ?E niceUrl (lit ''Type-2-diabetes-'') ?a1"
    using store_effect(4) [OF a1] by (simp add: nice_hashes)
  then have pre2: "\<forall>a. guidance ?a1 (storageKeyOf ?E chapterUrl) = Some a \<longrightarrow>
      a_contentHash a \<noteq> hashString ?E (fst (extractContent demoPage (lit ''nice'')))"
    by (auto simp: storedHash_def k c2 demo_hash nice_lengths)
  obtain a2 where a2: "storeArticle ?E chapterUrl (lit ''nice'') (lit ''chapter'') ?md (Some niceUrl)
      demoPage (orElse (md_title ?md) (extractTitle demoPage)) (fst (extractContent demoPage (lit ''nice'')))
      ?a1 = Some a2"
    using store_happens [OF pre2] by blast
  let ?a2 = "a2\<lparr>requests := requests ?a1 @ [chapterUrl]\<rparr>"
  have len2: "50 \<le> length (fst (extractContent demoPage (lit ''nice'')))"
    by (simp add: c2 demoPage_length)
  have "crawlAndStore ?E chapterUrl (lit ''nice'') (lit ''chapter'') ?md 1 1 (Some niceUrl) ?a1 =
          chaptersThen ?E demoPage (lit ''nice'') ?md chapterUrl 1 1 ?a2"
    by (rule crawl_stores [OF nice_respond(2) len2 a2])
  then have step2: "crawlAndStore ?E niceUrl (lit ''nice'') ty md 0 1 par s = ?a2"
    using step1 by (simp add: chaptersThen_def)
  note e1 = store_effect [OF a1] and e2 = store_effect [OF a2]
  show "requests (crawlAndStore ?E niceUrl (lit ''nice'') ty md 0 1 par s) = requests s @ [niceUrl, chapterUrl]"
    unfolding step2 by simp
  show "config (crawlAndStore ?E niceUrl (lit ''nice'') ty md 0 1 par s) = bumpUnread (bumpUnread (config s))"
    unfolding step2 using e1(1) e2(1) by simp
  show "clockReads (crawlAndStore ?E niceUrl (lit ''nice'') ty md 0 1 par s) = clockReads s + 4"
    unfolding step2 using e1(2) e2(2) by simp
  show "dom (changes (crawlAndStore ?E niceUrl (lit ''nice'') ty md 0 1 par s)) =
           insert (changeKeyOf ?E chapterUrl (s\<lparr>clockReads := clockReads s + 2\<rparr>))
             (insert (changeKeyOf ?E niceUrl s) (dom (changes s)))"
    unfolding step2 using e1(2,3) e2(3) by (simp add: changeKeyOf_def)
  show "storedHash ?E niceUrl demoHash (crawlAndStore ?E niceUrl (lit ''nice'') ty md 0 1 par s)"
    unfolding step2 using e2(4) by (simp add: storedHash_def k c2 demo_hash demoHash_def)
qed

lemma nice_keys:
  "clockReads s = 0 \<Longrightarrow> changeKeyOf (demoEnv r) niceUrl s = lit ''change:1700000000001:https://www.nice''"
  "clockReads s = 2 \<Longrightarrow> changeKeyOf (demoEnv r) chapterUrl s = lit ''change:1700000000003:https://www.nice''"
  "clockReads s = 4 \<Longrightarrow> changeKeyOf (demoEnv r) niceUrl s = lit ''change:1700000000005:https://www.nice''"
  "clockReads s = 6 \<Longrightarrow> changeKeyOf (demoEnv r) chapterUrl s = lit ''change:1700000000007:https://www.nice''"
  by (simp_all add: changeKeyOf_def hashString_def demoEnv_def niceUrl_def chapterUrl_def
        showNat.simps lit_def cu_def)






text \<open>
  Claim C1 as stated fails for a page whose chapters are crawled. The storage key is
  built from the fingerprint of the URL, the first 16 digits of the digest. When the
  URL of a chapter has the fingerprint of the URL of the page, the chapter is stored
  under the key of the page and replaces its entry; a second invocation, answered with
  the same page, finds another fingerprint there, stores the page again, appends change
  events and increments the counter of unread changes.
\<close>

theorem colliding_chapter_breaks_idempotence:
  "respond (demoEnv niceWeb) 0 niceUrl = Some nicePage \<and>
   respond (demoEnv niceWeb) (length (requests niceOnce)) niceUrl = Some nicePage \<and>
   requests niceOnce = [niceUrl, chapterUrl] \<and>
   chapterUrl \<noteq> niceUrl \<and>
   hashString (demoEnv niceWeb) chapterUrl = hashString (demoEnv niceWeb) niceUrl \<and>
   unreadChanges (config niceOnce) = Some 2 \<and>
   unreadChanges (config niceTwice) = Some 4 \<and>
   dom (changes niceOnce) =
     {lit ''change:1700000000001:https://www.nice'', lit ''change:1700000000003:https://www.nice''} \<and>
   dom (changes niceTwice) =
     {lit ''change:1700000000001:https://www.nice'', lit ''change:1700000000003:https://www.nice'',
      lit ''change:1700000000005:https://www.nice'', lit ''change:1700000000007:https://www.nice''} \<and>
   persisted niceTwice \<noteq> persisted niceOnce"
proof -
  let ?E = "demoEnv niceWeb"
  have d0: "\<not> storedHash ?E niceUrl (lit ''Type-2-diabetes-'') emptyRun"
    by (simp add: storedHash_def emptyRun_def)
  note r1 = nice_run [OF d0, of "lit ''guidance''" niceMeta None, folded niceOnce_def]
  have d1: "\<not> storedHash ?E niceUrl (lit ''Type-2-diabetes-'') niceOnce"
    using r1(5) nice_lengths(5) by (auto simp: storedHash_def demoHash_def)
  note r2 = nice_run [OF d1, of "lit ''guidance''" niceMeta None, folded niceTwice_def]
  have q1: "requests niceOnce = [niceUrl, chapterUrl]" using r1(1) by (simp add: emptyRun_def)
  have c1: "clockReads niceOnce = 4" using r1(3) by (simp add: emptyRun_def)
  have u1: "unreadChanges (config niceOnce) = Some 2"
    using r1(2) by (simp add: bumpUnread_def emptyRun_def emptyConfig_def)
  have u2: "unreadChanges (config niceTwice) = Some 4"
    using r2(2) u1 by (simp add: bumpUnread_def)
  have k1: "dom (changes niceOnce) =
     {lit ''change:1700000000001:https://www.nice'', lit ''change:1700000000003:https://www.nice''}"
    unfolding r1(4) by (auto simp: nice_keys emptyRun_def)
  have k2: "dom (changes niceTwice) =
     {lit ''change:1700000000001:https://www.nice'', lit ''change:1700000000003:https://www.nice'',
      lit ''change:1700000000005:https://www.nice'', lit ''change:1700000000007:https://www.nice''}"
    unfolding r2(4) k1 by (auto simp: nice_keys c1)
  have "config niceTwice \<noteq> config niceOnce" using u1 u2 by auto
  then have p: "persisted niceTwice \<noteq> persisted niceOnce" by (simp add: persisted_def)
  show ?thesis
    using q1 u1 u2 k1 k2 p by (simp add: nice_respond nice_lengths nice_hashes)
qed


lemma stepClosedD:
  assumes "stepClosed e R"
  shows "R s s" "R s t \<Longrightarrow> R t u \<Longrightarrow> R s u"
    "R s (s\<lparr>requests := r\<rparr>)" "R s (s\<lparr>clockReads := n\<rparr>)"
    "seen s k = None \<Longrightarrow> R s (s\<lparr>seen := (seen s)(k \<mapsto> v)\<rparr>)"
    "wfEntry e k a \<Longrightarrow> R s (s\<lparr>guidance := (guidance s)(k \<mapsto> a)\<rparr>)"
    "R s (s\<lparr>changes := c\<rparr>)" "R s (s\<lparr>config := cf\<rparr>)" "R s (s\<lparr>pageHashes := ph\<rparr>)"
  using assms unfolding stepClosed_def by blast+

lemma closed_upsert:
  assumes c: "stepClosed e R" and wf: "wfEntry e k a"
  shows "R s (s\<lparr>clockReads := n, guidance := (guidance s)(k \<mapsto> a), changes := ch, config := cf\<rparr>)"
proof -
  let ?s1 = "s\<lparr>clockReads := n\<rparr>"
  let ?s2 = "?s1\<lparr>guidance := (guidance ?s1)(k \<mapsto> a)\<rparr>"
  let ?s3 = "?s2\<lparr>changes := ch\<rparr>"
  have "R s ?s1" by (rule stepClosedD(4) [OF c])
  moreover have "R ?s1 ?s2" by (rule stepClosedD(6) [OF c wf])
  moreover have "R ?s2 ?s3" by (rule stepClosedD(7) [OF c])
  moreover have "R ?s3 (?s3\<lparr>config := cf\<rparr>)" by (rule stepClosedD(8) [OF c])
  ultimately have "R s (?s3\<lparr>config := cf\<rparr>)"
    using stepClosedD(2) [OF c] by blast
  then show ?thesis by simp
qed

lemma closed_storeArticle:
  assumes c: "stepClosed e R"
    and st: "storeArticle e url source type md parent html title content s = Some s'"
  shows "R s s'"
proof -
  have "0 < readTime (countWords content)"
    by (rule readTime_pos) (rule countWords_pos)
  then show ?thesis
    using st
    by (auto simp: storeArticle_def Let_def readClock_def wfEntry_def
             split: if_split_asm intro!: closed_upsert [OF c])
qed

lemma closed_crawl:
  shows "stepClosed e R \<Longrightarrow> R s (crawlAndStore e url source type md d m parent s)"
    and "stepClosed e R \<Longrightarrow> R s (crawlChapters e title url ls d m s)"
proof (induction e url source type md d m parent s and e title url ls d m s
        rule: crawlAndStore_crawlChapters.induct)
  case (1 e url source type md crawlDepth maxDepth parentUrl s)
  note c = "1.prems"
  let ?s1 = "s\<lparr>requests := requests s @ [url]\<rparr>"
  have r1: "R s ?s1" by (rule stepClosedD(3) [OF c])
  show ?case
  proof (cases "respond e (length (requests s)) url")
    case None
    then show ?thesis using r1 by (simp add: crawlAndStore.simps fetchPage_def)
  next
    case (Some html)
    let ?content = "fst (extractContent html source)"
    let ?title = "orElse (md_title md) (extractTitle html)"
    show ?thesis
    proof (cases "storeArticle e url source type md parentUrl html ?title ?content ?s1")
      case None
      then show ?thesis using r1 Some
        by (simp add: crawlAndStore.simps fetchPage_def Let_def del: storeArticle_requests)
    next
      case st: (Some s2)
      have r2: "R ?s1 s2" by (rule closed_storeArticle [OF c st])
      have r12: "R s s2" by (rule stepClosedD(2) [OF c r1 r2])
      show ?thesis
      proof (cases "?content = [] \<or> length ?content < 50")
        case True
        then show ?thesis using r1 Some by (simp add: crawlAndStore.simps fetchPage_def Let_def)
      next
        case False
        show ?thesis
        proof (cases "source = lit ''nice'' \<and> crawlDepth < maxDepth \<and> snd (extractContent html source) \<noteq> []")
          case True
          have fp: "(Some html, ?s1) = fetchPage e url s"
            using Some by (simp add: fetchPage_def)
          have "R s2 (crawlChapters e ?title url (snd (extractContent html source)) (crawlDepth + 1) maxDepth s2)"
            by (rule "1.IH" [OF fp refl refl refl refl False st True c])
          then have "R s (crawlChapters e ?title url (snd (extractContent html source)) (crawlDepth + 1) maxDepth s2)"
            by (rule stepClosedD(2) [OF c r12])
          moreover have "crawlAndStore e url source type md crawlDepth maxDepth parentUrl s =
              crawlChapters e ?title url (snd (extractContent html source)) (crawlDepth + 1) maxDepth s2"
            using Some False st True
            by (simp add: crawlAndStore.simps fetchPage_def Let_def del: storeArticle_requests)
          ultimately show ?thesis by simp
        next
          case F2: False
          have "crawlAndStore e url source type md crawlDepth maxDepth parentUrl s = s2"
            using Some False st F2
            by (simp add: crawlAndStore.simps fetchPage_def Let_def del: storeArticle_requests)
          then show ?thesis using r12 by simp
        qed
      qed
    qed
  qed
next
  case (2 e title url depth maxDepth s)
  then show ?case by (simp add: stepClosedD(1))
next
  case (3 e title url ch oth depth maxDepth s)
  show ?case
    using "3.IH" "3.prems" stepClosedD(2) [OF "3.prems"] by simp
qed

lemma closed_artp:
  assumes c: "stepClosed e R"
  shows "R s (crawlAndStoreARTP e url title date s)"
proof -
  let ?s1 = "s\<lparr>requests := requests s @ [url]\<rparr>"
  have r1: "R s ?s1" by (rule stepClosedD(3) [OF c])
  have "R s s2" if "storeArticle e url src ty md p html t content ?s1 = Some s2"
    for src ty md p html t content s2
    using stepClosedD(2) [OF c r1 closed_storeArticle [OF c that]] .
  then show ?thesis
    using r1
    by (auto simp: crawlAndStoreARTP_def fetchPage_def Let_def simp del: storeArticle_requests
             split: option.splits)
qed

lemma closed_seen_insert:
  assumes c: "stepClosed e R" and "seen s k = None"
  shows "R s (s\<lparr>clockReads := n, seen := (seen s)(k \<mapsto> v)\<rparr>)"
proof -
  let ?s1 = "s\<lparr>clockReads := n\<rparr>"
  have "R s ?s1" by (rule stepClosedD(4) [OF c])
  moreover have "R ?s1 (?s1\<lparr>seen := (seen ?s1)(k \<mapsto> v)\<rparr>)"
    by (rule stepClosedD(5) [OF c]) (simp add: assms(2))
  ultimately have "R s (?s1\<lparr>seen := (seen ?s1)(k \<mapsto> v)\<rparr>)"
    by (rule stepClosedD(2) [OF c])
  then show ?thesis by simp
qed

lemma closed_niceItem:
  assumes c: "stepClosed e R"
  shows "R s (snd (snd (niceItem e kws m (u, n, s))))"
  by (auto simp: niceItem_def Let_def readClock_def
           intro: stepClosedD(1) [OF c]
                  stepClosedD(2) [OF c closed_seen_insert [OF c] closed_crawl(1) [OF c]])

lemma closed_nice_fold:
  assumes c: "stepClosed e R"
  shows "R s (snd (snd (foldl (\<lambda>acc m. niceItem e kws m acc) (u, n, s) ms)))"
proof (induction ms arbitrary: u n s)
  case Nil
  then show ?case by (simp add: stepClosedD(1) [OF c])
next
  case (Cons m ms)
  obtain u' n' s' where st: "niceItem e kws m (u, n, s) = (u', n', s')"
    by (cases "niceItem e kws m (u, n, s)") auto
  have "R s s'" using closed_niceItem [OF c, of s kws m u n] st by simp
  then show ?case
    using Cons.IH [where u = u' and n = n' and s = s'] st stepClosedD(2) [OF c] by simp
qed

lemma closed_fetchNICE:
  assumes c: "stepClosed e R"
  shows "R s (snd (fetchNICEGuidance e s))"
proof -
  have "R s (snd (snd (foldl (\<lambda>acc m. niceItem e kws m acc) ([], 0, s\<lparr>requests := r\<rparr>) ms)))" for kws ms r
    by (rule stepClosedD(2) [OF c stepClosedD(3) [OF c] closed_nice_fold [OF c]])
  then show ?thesis
    by (auto simp: fetchNICEGuidance_def fetchPage_def Let_def stepClosedD(3) [OF c]
             split: option.splits)
qed

lemma closed_rssStore:
  assumes c: "stepClosed e R"
    and "rssStore e source item (hashString e (f_link item)) (n, s) = Inr (n', s')"
  shows "R s s'"
  using assms(2)
  by (auto simp: rssStore_def Let_def readClock_def wfEntry_def
           split: if_split_asm option.splits
           intro!: closed_upsert [OF c] stepClosedD(1) [OF c])

lemma closed_rssItem:
  assumes c: "stepClosed e R"
    and "rssItem e source inc exc only x (n, s) = Inr (n', s')"
  shows "R s s'"
proof -
  let ?item = "parseItem x"
  let ?k = "source @ lit '':'' @ hashString e (f_link ?item)"
  have store: "R s s'"
    if "seen s ?k = None"
      and "rssStore e source ?item (hashString e (f_link ?item))
             (n, s\<lparr>clockReads := Suc (clockReads s), seen := (seen s)(?k \<mapsto> v)\<rparr>) = Inr (n', s')" for v
    by (rule stepClosedD(2) [OF c closed_seen_insert [OF c that(1)] closed_rssStore [OF c that(2)]])
  have crawl: "R s (crawlAndStore e url src ty md d m p
                     (s\<lparr>clockReads := Suc (clockReads s), seen := (seen s)(?k \<mapsto> v)\<rparr>))"
    if "seen s ?k = None" for url src ty md d m p v
    by (rule stepClosedD(2) [OF c closed_seen_insert [OF c that] closed_crawl(1) [OF c]])
  show ?thesis
    using assms(2) store crawl
    by (auto simp: rssItem_def Let_def readClock_def stepClosedD(1) [OF c] split: if_split_asm)
qed

lemma closed_rssLoop:
  assumes c: "stepClosed e R"
  shows "rssLoop e source inc exc only xs (n, s) = Inr (n', s') \<Longrightarrow> R s s'"
proof (induction xs arbitrary: n s)
  case Nil
  then show ?case by (simp add: stepClosedD(1) [OF c])
next
  case (Cons x xs)
  then obtain n1 s1 where st: "rssItem e source inc exc only x (n, s) = Inr (n1, s1)"
    and rest: "rssLoop e source inc exc only xs (n1, s1) = Inr (n', s')"
    by (auto split: sum.splits)
  show ?case
    by (rule stepClosedD(2) [OF c closed_rssItem [OF c st] Cons.IH [OF rest]])
qed

lemma closed_fetchRSS:
  assumes c: "stepClosed e R" and "fetchRSSSource e url source s = Inr (n', s')"
  shows "R s s'"
  using assms(2)
  by (auto simp: fetchRSSSource_def fetchPage_def Let_def stepClosedD(3) [OF c]
           split: option.splits
           intro: stepClosedD(2) [OF c stepClosedD(3) [OF c] closed_rssLoop [OF c]])

lemma closed_clock_config:
  assumes c: "stepClosed e R"
  shows "R s (s\<lparr>clockReads := n, config := cf\<rparr>)"
proof -
  let ?s1 = "s\<lparr>clockReads := n\<rparr>"
  have "R s ?s1" by (rule stepClosedD(4) [OF c])
  moreover have "R ?s1 (?s1\<lparr>config := cf\<rparr>)" by (rule stepClosedD(8) [OF c])
  ultimately have "R s (?s1\<lparr>config := cf\<rparr>)" by (rule stepClosedD(2) [OF c])
  then show ?thesis by simp
qed

lemma closed_rssMain:
  assumes c: "stepClosed e R" and main: "rssMain e s = Inr s'"
  shows "R s s'"
proof -
  define A where "A = (if sourceEnabled (config s) (lit ''nice'') then fetchNICEGuidance e s else (0, s))"
  obtain n1 s1 where s1: "A = (n1, s1)" by (cases A) auto
  have r1: "R s s1"
    using s1 closed_fetchNICE [OF c, of s] stepClosedD(1) [OF c, of s]
    by (auto simp: A_def split: if_split_asm)
  define B where "B = (if sourceEnabled (config s1) (lit ''ncl'')
               then fetchRSSSource e (lit ''https://gps.northcentrallondon.icb.nhs.uk/news/rss'')
                      (lit ''ncl'') s1
               else Inr (0, s1))"
  have m1: "rssMain e s = (case B of Inl err \<Rightarrow> Inl err
      | Inr (ncl, s2) \<Rightarrow>
          (case (if sourceEnabled (config s2) (lit ''nhs'')
                 then fetchRSSSource e (lit ''https://www.england.nhs.uk/feed/'') (lit ''nhs'') s2
                 else Inr (0, s2)) of
             Inl err \<Rightarrow> Inl err
           | Inr (nhs, s3) \<Rightarrow>
               (let (t, s4) = readClock e s3
                in Inr (s4\<lparr>config := (config s4)
                         \<lparr>lastRunStats := (lastRunStats (config s4))
                            \<lparr>rssPoller := Some (toISOString e (int t)),
                             rssPollerResults := Some (n1, ncl, nhs, n1 + ncl + nhs)\<rparr>\<rparr>\<rparr>))))"
    using s1 unfolding rssMain_def A_def B_def by simp
  obtain n2 s2 where s2: "B = Inr (n2, s2)"
    using main m1 by (cases B) auto
  have r2: "R s1 s2"
    using s2 closed_fetchRSS [OF c] stepClosedD(1) [OF c, of s1]
    by (auto simp: B_def split: if_split_asm)
  define C where "C = (if sourceEnabled (config s2) (lit ''nhs'')
                 then fetchRSSSource e (lit ''https://www.england.nhs.uk/feed/'') (lit ''nhs'') s2
                 else Inr (0, s2))"
  have m2: "rssMain e s = (case C of Inl err \<Rightarrow> Inl err
           | Inr (nhs, s3) \<Rightarrow>
               (let (t, s4) = readClock e s3
                in Inr (s4\<lparr>config := (config s4)
                         \<lparr>lastRunStats := (lastRunStats (config s4))
                            \<lparr>rssPoller := Some (toISOString e (int t)),
                             rssPollerResults := Some (n1, n2, nhs, n1 + n2 + nhs)\<rparr>\<rparr>\<rparr>)))"
    using m1 s2 unfolding C_def by simp
  obtain n3 s3 where s3: "C = Inr (n3, s3)"
    using main m2 by (cases C) auto
  have r3: "R s2 s3"
    using s3 closed_fetchRSS [OF c] stepClosedD(1) [OF c, of s2]
    by (auto simp: C_def split: if_split_asm)
  have "\<exists>n cf. s' = s3\<lparr>clockReads := n, config := cf\<rparr>"
    using main m2 s3 by (auto simp: readClock_def)
  then have r4: "R s3 s'"
    using closed_clock_config [OF c] by blast
  show ?thesis
    using r1 r2 r3 r4 stepClosedD(2) [OF c] by blast
qed

lemma closed_artpItem:
  assumes c: "stepClosed e R"
  shows "R s (snd (artpItem e exc now a (n, s)))"
proof -
  have "R s (crawlAndStoreARTP e url t d (s\<lparr>seen := (seen s)(k \<mapsto> v)\<rparr>))"
    if "seen s k = None" for url t d k v
    by (rule stepClosedD(2) [OF c stepClosedD(5) [OF c that] closed_artp [OF c]])
  then show ?thesis
    by (auto simp: artpItem_def Let_def stepClosedD(1) [OF c])
qed

lemma closed_artp_fold:
  assumes c: "stepClosed e R"
  shows "R s (snd (foldl (\<lambda>acc a. artpItem e exc now a acc) (n, s) as))"
proof (induction as arbitrary: n s)
  case Nil
  then show ?case by (simp add: stepClosedD(1) [OF c])
next
  case (Cons a as)
  obtain n' s' where st: "artpItem e exc now a (n, s) = (n', s')"
    by (cases "artpItem e exc now a (n, s)") auto
  have "R s s'" using closed_artpItem [OF c, of s exc now a n] st by simp
  then show ?case
    using Cons.IH [where n = n' and s = s'] st stepClosedD(2) [OF c] by simp
qed

lemma closed_requests_clock:
  assumes c: "stepClosed e R"
  shows "R s (s\<lparr>requests := r, clockReads := n\<rparr>)"
proof -
  let ?s1 = "s\<lparr>requests := r\<rparr>"
  have "R s ?s1" by (rule stepClosedD(3) [OF c])
  moreover have "R ?s1 (?s1\<lparr>clockReads := n\<rparr>)" by (rule stepClosedD(4) [OF c])
  ultimately show ?thesis by (rule stepClosedD(2) [OF c])
qed

lemma closed_checkARTP:
  assumes c: "stepClosed e R"
  shows "R s (checkARTPNews e s)"
proof -
  have a: "R s (s\<lparr>requests := r, clockReads := n, pageHashes := ph\<rparr>)" for r n ph
  proof -
    let ?t = "s\<lparr>requests := r, clockReads := n\<rparr>"
    have "R s ?t" by (rule closed_requests_clock [OF c])
    moreover have "R ?t (?t\<lparr>pageHashes := ph\<rparr>)" by (rule stepClosedD(9) [OF c])
    ultimately have "R s (?t\<lparr>pageHashes := ph\<rparr>)" by (rule stepClosedD(2) [OF c])
    then show ?thesis by simp
  qed
  have b: "R s ((snd (foldl (\<lambda>acc a. artpItem e exc now a acc)
                        (0, s\<lparr>requests := r, clockReads := n\<rparr>) as))\<lparr>pageHashes := ph\<rparr>)"
    for r n exc now as ph
    by (rule stepClosedD(2) [OF c stepClosedD(2) [OF c closed_requests_clock [OF c]
              closed_artp_fold [OF c]] stepClosedD(9) [OF c]])
  show ?thesis
    using a b stepClosedD(3) [OF c]
    by (auto simp: checkARTPNews_def fetchPage_def readClock_def Let_def case_prod_beta
             split: option.splits)
qed

lemma closed_artpMain:
  assumes c: "stepClosed e R"
  shows "R s (artpMain e s)"
proof -
  have "R s (t\<lparr>clockReads := n, config := cf\<rparr>)" if "R s t" for t n cf
    by (rule stepClosedD(2) [OF c that closed_clock_config [OF c]])
  then show ?thesis
    using closed_checkARTP [OF c] stepClosedD(1) [OF c]
    by (auto simp: artpMain_def readClock_def Let_def)
qed

lemma stepClosed_seenKept: "stepClosed e seenKept"
  by (auto simp: stepClosed_def seenKept_def)

lemma stepClosed_writes: "stepClosed e (writesWellFormed e)"
  unfolding stepClosed_def writesWellFormed_def
  by (intro conjI allI impI) (auto split: if_split_asm)

text \<open>
  Claim C8. Every seen entry present before a run of either poller is present, with the
  same value, after it: an entry is written only under a key that has none, and none is
  changed or deleted. An item whose key has an entry is skipped by the loop of its
  source: the step leaves the documents and the counter of new items as they were.
\<close>

theorem seen_entries_written_once:
  "(rssMain e s = Inr s' \<longrightarrow> seenKept s s') \<and>
   seenKept s (artpMain e s) \<and>
   (seen s (lit ''nice:'' @ hashString e (lit ''https://www.nice.org.uk'' @ group 1 m)) \<noteq> None \<longrightarrow>
      snd (niceItem e kws m (u, n, s)) = (n, s)) \<and>
   (seen s (source @ lit '':'' @ hashString e (f_link (parseItem x))) \<noteq> None \<longrightarrow>
      rssItem e source inc exc only x (n, s) = Inr (n, s)) \<and>
   (seen s (lit ''artp:'' @ hashString e (al_url a)) \<noteq> None \<longrightarrow>
      artpItem e exc now a (n, s) = (n, s))"
proof (intro conjI impI)
  assume "rssMain e s = Inr s'"
  then show "seenKept s s'" by (rule closed_rssMain [OF stepClosed_seenKept])
next
  show "seenKept s (artpMain e s)" by (rule closed_artpMain [OF stepClosed_seenKept])
next
  assume "seen s (lit ''nice:'' @ hashString e (lit ''https://www.nice.org.uk'' @ group 1 m)) \<noteq> None"
  then show "snd (niceItem e kws m (u, n, s)) = (n, s)"
    by (auto simp: niceItem_def Let_def)
next
  assume "seen s (source @ lit '':'' @ hashString e (f_link (parseItem x))) \<noteq> None"
  then show "rssItem e source inc exc only x (n, s) = Inr (n, s)"
    by (auto simp: rssItem_def Let_def)
next
  assume "seen s (lit ''artp:'' @ hashString e (al_url a)) \<noteq> None"
  then show "artpItem e exc now a (n, s) = (n, s)"
    by (auto simp: artpItem_def Let_def)
qed

text \<open>
  Claim C9. Every entry of the guidance map that a run of either poller, an invocation
  of the engine or a step of the feed loop has written (every entry that is not the one
  stored under its key before) has its key as \<open>id\<close>, that key is \<open>content:\<close> followed by
  the fingerprint of its \<open>url\<close>, its \<open>contentHash\<close> is the fingerprint of its \<open>content\<close>,
  and its estimated reading time is at least 1.
\<close>

theorem stored_articles_are_well_formed:
  "(rssMain e s = Inr s' \<longrightarrow> writesWellFormed e s s') \<and>
   writesWellFormed e s (artpMain e s) \<and>
   writesWellFormed e s (crawlAndStore e url source type md d m parent s) \<and>
   writesWellFormed e s (crawlAndStoreARTP e url title date s) \<and>
   (rssItem e source inc exc only x (n, s) = Inr (n', s') \<longrightarrow> writesWellFormed e s s')"
  by (intro conjI impI)
     (erule closed_rssMain [OF stepClosed_writes] closed_rssItem [OF stepClosed_writes] |
      rule closed_artpMain [OF stepClosed_writes] closed_crawl(1) [OF stepClosed_writes]
           closed_artp [OF stepClosed_writes])+

text \<open>
  Claim C4. In the feed pipeline an item whose lower-cased title and description contain
  an exclude keyword (compared in lower case) is skipped whatever the include list is,
  the exclude list being checked first, and with a non-empty include list an item that
  contains no include keyword is skipped; the NICE pipeline skips an item whose title
  contains none of its non-empty keyword list, and the ARTP pipeline an item whose
  title contains an exclude keyword. A skipped item leaves every document and the
  counter of the loop as they were. A keyword that is written in lower case and occurs
  in the text is found by the test.
\<close>

theorem relevance_filter_blocks_items:
  "(someKeyword e exc (toLowerCase e (f_title (parseItem x) @ lit '' '' @ f_description (parseItem x))) \<longrightarrow>
      rssItem e source inc exc only x (n, s) = Inr (n, s)) \<and>
   (inc \<noteq> [] \<and>
    \<not> someKeyword e inc (toLowerCase e (f_title (parseItem x) @ lit '' '' @ f_description (parseItem x))) \<longrightarrow>
      rssItem e source inc exc only x (n, s) = Inr (n, s)) \<and>
   (kws \<noteq> [] \<and> \<not> someKeyword e kws (toLowerCase e (plainText (group 2 m))) \<longrightarrow>
      snd (niceItem e kws m (u, n, s)) = (n, s)) \<and>
   (someKeyword e exc (toLowerCase e (al_title a)) \<longrightarrow> artpItem e exc now a (n, s) = (n, s)) \<and>
   (kw \<in> set exc \<and> toLowerCase e kw = kw \<and> includesStr text kw \<longrightarrow> someKeyword e exc text)"
proof (intro conjI impI)
  assume "someKeyword e exc (toLowerCase e (f_title (parseItem x) @ lit '' '' @ f_description (parseItem x)))"
  then show "rssItem e source inc exc only x (n, s) = Inr (n, s)"
    by (simp add: rssItem_def Let_def)
next
  assume "inc \<noteq> [] \<and>
    \<not> someKeyword e inc (toLowerCase e (f_title (parseItem x) @ lit '' '' @ f_description (parseItem x)))"
  then show "rssItem e source inc exc only x (n, s) = Inr (n, s)"
    by (simp add: rssItem_def Let_def)
next
  assume "kws \<noteq> [] \<and> \<not> someKeyword e kws (toLowerCase e (plainText (group 2 m)))"
  then show "snd (niceItem e kws m (u, n, s)) = (n, s)"
    by (simp add: niceItem_def Let_def)
next
  assume "someKeyword e exc (toLowerCase e (al_title a))"
  then show "artpItem e exc now a (n, s) = (n, s)"
    by (simp add: artpItem_def Let_def)
next
  assume "kw \<in> set exc \<and> toLowerCase e kw = kw \<and> includesStr text kw"
  then have "kw \<in> set exc" "includesStr text (toLowerCase e kw)" by simp_all
  then show "someKeyword e exc text"
    unfolding someKeyword_def by blast
qed

text \<open>
  Claim C5. When a page fingerprint is cached for the ARTP listing and it equals the
  fingerprint of the sorted article URLs found on the listing page, \<open>checkARTPNews\<close>
  sends no request after the one for the listing, leaves the seen, guidance and changes
  maps and the configuration as they were, and changes of the cached record only the
  time of the last check. A fingerprint is never the empty string.
\<close>

theorem unchanged_listing_short_circuit:
  assumes "respond e (length (requests s)) (lit ''https://www.artp.org.uk/news'') = Some html"
    and "pageHashes s (lit ''artp-news'') = Some p"
    and "p_hash p =
           hashString e (joinWith (lit ''|'') (sortStrings (map al_url (extractARTPArticleLinks html))))"
    and "p_hash p \<noteq> []"
  shows "seen (checkARTPNews e s) = seen s \<and>
         guidance (checkARTPNews e s) = guidance s \<and>
         changes (checkARTPNews e s) = changes s \<and>
         config (checkARTPNews e s) = config s \<and>
         pageHashes (checkARTPNews e s) =
           (pageHashes s)(lit ''artp-news'' \<mapsto>
              p\<lparr>p_lastChecked := toISOString e (int (clock e (clockReads s)))\<rparr>) \<and>
         requests (checkARTPNews e s) = requests s @ [lit ''https://www.artp.org.uk/news'']"
  using assms
  by (simp add: checkARTPNews_def fetchPage_def readClock_def Let_def truthy_def)

lemma demoListing_matches: "rxMatchAll True articleRx demoListing = [demoMatch]"
  by (simp add: demoListing_def demoMatch_def
        rxMatchAll_def rxMatchAllFrom.simps Let_def rx_defs articleRx_def str_defs run_defs)

lemma demoMatch_groups:
  "group 1 demoMatch = lit ''/news/12/flu_update''"
  "group (Suc 0) demoMatch = lit ''/news/12/flu_update''" "group 2 demoMatch = lit ''12''"
  "group 3 demoMatch = lit ''flu_update''" "group 4 demoMatch = lit ''Flu update''"
  by (simp_all add: group_def demoMatch_def)

lemma demo_inner: "plainText (lit ''Flu update'') = lit ''Flu update''"
  by (simp add: plainText_def rx_defs str_defs run_defs)

lemma demo_index: "indexOf demoListing (lit ''/news/12/flu_update'') = 9"
  by (simp add: demoListing_def str_defs indexOf_def)

lemma demo_window: "substring demoListing 0 (min (int (length demoListing)) 509) = demoListing"
  by (simp add: demoListing_def str_defs)

lemma demo_nodate: "rxFind False dateRx demoListing = None"
  by (simp add: demoListing_def dateRx_def rx_defs str_defs run_defs)

lemma demo_title_length: "length (lit ''Flu update'') = 10" "lit ''Flu update'' \<noteq> []"
  by (simp_all add: lit_def)

lemma demoListing_links:
  "extractARTPArticleLinks demoListing =
     [\<lparr>al_url = lit ''https://www.artp.org.uk'' @ lit ''/news/12/flu_update'', al_id = lit ''12'',
       al_title = lit ''Flu update'', al_date = None\<rparr>]"
  by (simp add: extractARTPArticleLinks_def demoListing_matches demoMatch_groups demo_inner
        demo_index demo_window demo_nodate demo_title_length Let_def)




end
